theory Spec2Isabelle
  imports Complex_Main "HOL-Library.Monad_Syntax"
begin

section \<open>Numbers and failures\<close>

text \<open>
  The simulation of \<^verbatim>\<open>main.py\<close> computes with Python floats (the parameters of the
  configuration and what is computed from them alone) and with numpy floats (whatever
  \<^verbatim>\<open>np.sin\<close> has touched: forces, accelerations, speeds, loads). The two differ at a
  zero divisor: Python raises ZeroDivisionError, numpy returns inf or NaN with a warning,
  and the program runs on.

  A numpy float is modelled as a value of \<open>fl\<close>: a real number, plus or minus infinity,
  or NaN, with the arithmetic of IEEE 754 on them. Rounding, overflow and the sign of
  zero are not modelled: the finite values are the real numbers, and a zero divisor under
  a finite dividend other than zero counts as \<open>+0\<close>. A Python float is a real number,
  and a division of Python floats is \<open>py_div\<close>, where \<open>None\<close> is the ZeroDivisionError.
  An index out of range (IndexError) is \<open>None\<close> as well.
\<close>

datatype fl = Fin real | PInf | NInf | NaN

instantiation fl :: "{plus, minus, uminus, times, inverse}"
begin

fun uminus_fl :: "fl \<Rightarrow> fl" where
  "uminus_fl (Fin x) = Fin (- x)"
| "uminus_fl PInf = NInf"
| "uminus_fl NInf = PInf"
| "uminus_fl NaN = NaN"

fun plus_fl :: "fl \<Rightarrow> fl \<Rightarrow> fl" where
  "plus_fl (Fin x) (Fin y) = Fin (x + y)"
| "plus_fl (Fin x) PInf = PInf"
| "plus_fl (Fin x) NInf = NInf"
| "plus_fl PInf (Fin y) = PInf"
| "plus_fl NInf (Fin y) = NInf"
| "plus_fl PInf PInf = PInf"
| "plus_fl NInf NInf = NInf"
| "plus_fl PInf NInf = NaN"
| "plus_fl NInf PInf = NaN"
| "plus_fl NaN y = NaN"
| "plus_fl x NaN = NaN"

definition minus_fl :: "fl \<Rightarrow> fl \<Rightarrow> fl" where
  "minus_fl x y = x + (- y)"

fun times_fl :: "fl \<Rightarrow> fl \<Rightarrow> fl" where
  "times_fl (Fin x) (Fin y) = Fin (x * y)"
| "times_fl (Fin x) PInf = (if x = 0 then NaN else if 0 < x then PInf else NInf)"
| "times_fl (Fin x) NInf = (if x = 0 then NaN else if 0 < x then NInf else PInf)"
| "times_fl PInf (Fin y) = (if y = 0 then NaN else if 0 < y then PInf else NInf)"
| "times_fl NInf (Fin y) = (if y = 0 then NaN else if 0 < y then NInf else PInf)"
| "times_fl PInf PInf = PInf"
| "times_fl NInf NInf = PInf"
| "times_fl PInf NInf = NInf"
| "times_fl NInf PInf = NInf"
| "times_fl NaN y = NaN"
| "times_fl x NaN = NaN"

fun divide_fl :: "fl \<Rightarrow> fl \<Rightarrow> fl" where
  "divide_fl (Fin x) (Fin y) =
     (if y = 0 then (if x = 0 then NaN else if 0 < x then PInf else NInf) else Fin (x / y))"
| "divide_fl (Fin x) PInf = Fin 0"
| "divide_fl (Fin x) NInf = Fin 0"
| "divide_fl PInf (Fin y) = (if y < 0 then NInf else PInf)"
| "divide_fl NInf (Fin y) = (if y < 0 then PInf else NInf)"
| "divide_fl PInf PInf = NaN"
| "divide_fl NInf NInf = NaN"
| "divide_fl PInf NInf = NaN"
| "divide_fl NInf PInf = NaN"
| "divide_fl NaN y = NaN"
| "divide_fl x NaN = NaN"

definition inverse_fl :: "fl \<Rightarrow> fl" where
  "inverse_fl x = divide (Fin 1) x"

instance ..

end

text \<open>\<^verbatim>\<open>np.sin\<close> and \<^verbatim>\<open>np.arctan\<close>.\<close>

fun fsin :: "fl \<Rightarrow> fl" where
  "fsin (Fin x) = Fin (sin x)"
| "fsin PInf = NaN"
| "fsin NInf = NaN"
| "fsin NaN = NaN"

fun farctan :: "fl \<Rightarrow> fl" where
  "farctan (Fin x) = Fin (arctan x)"
| "farctan PInf = Fin (pi / 2)"
| "farctan NInf = Fin (- (pi / 2))"
| "farctan NaN = NaN"

text \<open>
  The comparisons \<open>></\<close>, \<open><\<close> and \<open><=\<close> of floats: each is false when an operand is
  NaN.
\<close>

fun fl_gt :: "fl \<Rightarrow> fl \<Rightarrow> bool" where
  "fl_gt (Fin x) (Fin y) = (y < x)"
| "fl_gt (Fin x) PInf = False"
| "fl_gt (Fin x) NInf = True"
| "fl_gt PInf (Fin y) = True"
| "fl_gt NInf (Fin y) = False"
| "fl_gt PInf PInf = False"
| "fl_gt NInf NInf = False"
| "fl_gt PInf NInf = True"
| "fl_gt NInf PInf = False"
| "fl_gt NaN y = False"
| "fl_gt x NaN = False"

definition fl_lt :: "fl \<Rightarrow> fl \<Rightarrow> bool" where
  "fl_lt x y = fl_gt y x"

definition fl_le :: "fl \<Rightarrow> fl \<Rightarrow> bool" where
  "fl_le x y = (x \<noteq> NaN \<and> y \<noteq> NaN \<and> \<not> fl_gt x y)"

fun is_Fin :: "fl \<Rightarrow> bool" where
  "is_Fin (Fin x) = True"
| "is_Fin PInf = False"
| "is_Fin NInf = False"
| "is_Fin NaN = False"

definition py_div :: "real \<Rightarrow> real \<Rightarrow> real option" where
  "py_div x y = (if y = 0 then None else Some (x / y))"

definition nth_opt :: "'a list \<Rightarrow> nat \<Rightarrow> 'a option" where
  "nth_opt xs n = (if n < length xs then Some (xs ! n) else None)"

text \<open>Python's \<open>sum\<close> of a list: the entries are added to 0 from the left.\<close>

definition py_sum :: "fl list \<Rightarrow> fl" where
  "py_sum xs = foldl (+) (Fin 0) xs"

section \<open>The configuration classes\<close>

text \<open>
  The parameters of a configuration are Python floats. The constructors check nothing.
\<close>

record Vehicle =
  Vehicle_a :: real
  Vehicle_b :: real
  Vehicle_m :: real
  Vehicle_h :: real
  Vehicle_l :: real
  Vehicle_cd :: real
  Vehicle_A :: real

text \<open>\<^verbatim>\<open>Vehicle.__init__\<close>: the wheelbase is derived, \<open>l = a + b\<close>.\<close>

definition Vehicle_init :: "real \<Rightarrow> real \<Rightarrow> real \<Rightarrow> real \<Rightarrow> real \<Rightarrow> real \<Rightarrow> Vehicle" where
  "Vehicle_init a b m h cd A =
     \<lparr>Vehicle_a = a, Vehicle_b = b, Vehicle_m = m, Vehicle_h = h, Vehicle_l = a + b,
      Vehicle_cd = cd, Vehicle_A = A\<rparr>"

record Motor =
  Motor_Kv :: real
  Motor_Kt :: real
  Motor_k :: real

text \<open>\<^verbatim>\<open>Motor.__init__\<close>: \<open>Kt = 1/(Kv*0.10472)\<close>.\<close>

definition Motor_init :: "real \<Rightarrow> real \<Rightarrow> Motor option" where
  "Motor_init Kv k = do {
     Kt \<leftarrow> py_div 1 (Kv * 0.10472);
     Some \<lparr>Motor_Kv = Kv, Motor_Kt = Kt, Motor_k = k\<rparr>
   }"

record Battery =
  Battery_Ah :: real
  Battery_C :: real
  Battery_V :: real
  Battery_Constant :: real
  Battery_Burst :: real
  Battery_Burst_time :: real

text \<open>\<^verbatim>\<open>Battery.__init__\<close>: \<open>Constant = C * Ah\<close> and \<open>Burst = Constant * 1.95\<close>.\<close>

definition Battery_init :: "real \<Rightarrow> real \<Rightarrow> real \<Rightarrow> real \<Rightarrow> Battery" where
  "Battery_init Ah C V B_time =
     \<lparr>Battery_Ah = Ah, Battery_C = C, Battery_V = V, Battery_Constant = C * Ah,
      Battery_Burst = C * Ah * 1.95, Battery_Burst_time = B_time\<rparr>"

record Tire =
  Tire_r :: real
  Tire_J :: real
  Tire_a :: real
  Tire_b :: real
  Tire_c :: real
  Tire_d :: real

text \<open>\<^verbatim>\<open>Tire.__init__(r, J, a, b, c, d)\<close> stores its arguments.\<close>

definition Tire_init :: "real \<Rightarrow> real \<Rightarrow> real \<Rightarrow> real \<Rightarrow> real \<Rightarrow> real \<Rightarrow> Tire" where
  "Tire_init r J a b c d =
     \<lparr>Tire_r = r, Tire_J = J, Tire_a = a, Tire_b = b, Tire_c = c, Tire_d = d\<rparr>"

section \<open>The tire model\<close>

text \<open>
  \<^verbatim>\<open>Tire.lonFriction\<close>, line 78: the local variable \<open>Fx\<close>, the longitudinal force at
  the given slip and normal force. The value is a numpy float.
\<close>

definition lonFriction_Fx :: "Tire \<Rightarrow> fl \<Rightarrow> fl \<Rightarrow> fl" where
  "lonFriction_Fx t slip normalForce =
     normalForce * Fin (Tire_d t) *
       fsin (Fin (Tire_c t) *
         farctan (Fin (Tire_b t) * slip -
                  Fin (Tire_a t) * (Fin (Tire_b t) * slip - farctan (Fin (Tire_b t) * slip))))"

text \<open>
  \<^verbatim>\<open>Tire.lonFriction\<close>, lines 79 and 80: the value returned is \<open>u = Fx/normalForce\<close>,
  a division of numpy floats.
\<close>

definition lonFriction :: "Tire \<Rightarrow> fl \<Rightarrow> fl \<Rightarrow> fl" where
  "lonFriction t slip normalForce = lonFriction_Fx t slip normalForce / normalForce"

text \<open>
  The friction coefficient as the specification writes it,
  \<open>\<mu> = d * sin (c * atan (b * slip - a * (b * slip - atan (b * slip))))\<close>.
\<close>

definition spec_mu :: "Tire \<Rightarrow> real \<Rightarrow> real" where
  "spec_mu t slip =
     Tire_d t * sin (Tire_c t *
       arctan (Tire_b t * slip - Tire_a t * (Tire_b t * slip - arctan (Tire_b t * slip))))"

section \<open>The simulation object\<close>

text \<open>
  The class \<^verbatim>\<open>Sim\<close>: the four configuration objects, the step and the run time, the
  state variables \<^verbatim>\<open>_current_*\<close> (one entry per wheel in the order right front, left
  front, left rear, right rear), the static loads \<^verbatim>\<open>_inital_Fz\<close>, and the output
  frame \<^verbatim>\<open>self.output\<close>, a list of rows. The static loads and the time are computed
  from parameters alone and are Python floats; the other state variables hold numpy
  floats after the first tick.
\<close>

record Sim =
  Sim_Vehicle :: Vehicle
  Sim_Motor :: Motor
  Sim_Tire :: Tire
  Sim_Battery :: Battery
  Sim_dt :: real
  Sim_runtime :: real
  current_x :: fl
  current_x_dot :: fl
  current_x_ddot :: fl
  current_time :: real
  current_amps :: "fl list"
  inital_Fz :: "real list"
  current_Fz :: "fl list"
  current_P :: "fl list"
  current_slip :: "fl list"
  current_w :: "fl list"
  Sim_output :: "fl list list"

text \<open>
  \<^verbatim>\<open>Sim.__init__\<close>, lines 89 to 121. The static load of a front wheel is
  \<open>m * b / l / 2\<close> and of a rear wheel \<open>m * a / l / 2\<close>; the division by \<open>l\<close> raises for
  a wheelbase of zero.
\<close>

definition Sim_init :: "Vehicle \<Rightarrow> Motor \<Rightarrow> Tire \<Rightarrow> Battery \<Rightarrow> real \<Rightarrow> real \<Rightarrow> Sim option" where
  "Sim_init V M T B dt runtime = do {
     front \<leftarrow> py_div (Vehicle_m V * Vehicle_b V) (Vehicle_l V);
     rear \<leftarrow> py_div (Vehicle_m V * Vehicle_a V) (Vehicle_l V);
     Some \<lparr>Sim_Vehicle = V, Sim_Motor = M, Sim_Tire = T, Sim_Battery = B,
           Sim_dt = dt, Sim_runtime = runtime,
           current_x = Fin 0, current_x_dot = Fin 0.0001, current_x_ddot = Fin 0,
           current_time = 0,
           current_amps = [Fin 0, Fin 0, Fin 0, Fin 0],
           inital_Fz = [front / 2, front / 2, rear / 2, rear / 2],
           current_Fz = [Fin (front / 2), Fin (front / 2), Fin (rear / 2), Fin (rear / 2)],
           current_P = [Fin 0, Fin 0, Fin 0, Fin 0],
           current_slip = [Fin 0, Fin 0, Fin 0, Fin 0],
           current_w = [Fin 0, Fin 0, Fin 0, Fin 0],
           Sim_output = []\<rparr>
   }"

text \<open>\<^verbatim>\<open>Sim.update_values\<close>, lines 123 to 133.\<close>

definition update_values ::
  "Sim \<Rightarrow> fl \<Rightarrow> fl \<Rightarrow> fl \<Rightarrow> real \<Rightarrow> fl list \<Rightarrow> fl list \<Rightarrow> fl list \<Rightarrow> fl list \<Rightarrow> fl list \<Rightarrow> Sim" where
  "update_values s x x_dot x_ddot time amps Fz P slip w =
     s\<lparr>current_x := x, current_x_dot := x_dot, current_x_ddot := x_ddot, current_time := time,
       current_amps := amps, current_Fz := Fz, current_P := P, current_slip := slip,
       current_w := w\<rparr>"

text \<open>
  \<^verbatim>\<open>Sim.w_fun\<close>, line 137: the residual of the wheel dynamics for a candidate wheel
  speed \<open>w\<close>, a driveline torque \<open>T\<close> and a wheel index. It reads the current state. The
  root finder calls it with a numpy array, so its divisions do not raise; the index is
  the one of the wheel being limited, which is in range.
\<close>

definition w_fun :: "Sim \<Rightarrow> fl \<Rightarrow> fl \<Rightarrow> nat \<Rightarrow> fl" where
  "w_fun s w T axle =
     Fin (Tire_J (Sim_Tire s)) * (w - current_w s ! axle) +
     Fin (Tire_r (Sim_Tire s)) *
       lonFriction (Sim_Tire s) (Fin 1 - current_x_dot s / (Fin (Tire_r (Sim_Tire s)) * w))
         (current_Fz s ! axle) *
       current_Fz s ! axle - T"

subsection \<open>The peak-traction search\<close>

text \<open>
  Lines 154 to 159: for \<open>n\<close> in \<open>range(100)\<close> the sample at slip \<open>n/100\<close> is
  \<open>lonFriction(n/100, Fz) * Fz\<close>; each wheel has its own list of samples.
\<close>

definition P_sample :: "Tire \<Rightarrow> fl \<Rightarrow> nat \<Rightarrow> fl" where
  "P_sample t Fz n = lonFriction t (Fin (real n / 100)) Fz * Fz"

definition P_list :: "Tire \<Rightarrow> fl \<Rightarrow> fl list" where
  "P_list t Fz = map (P_sample t Fz) [0..<100]"

text \<open>
  Python's \<open>max\<close> of a list keeps the first element and replaces it by a later one only
  when that one is greater; on an empty list it raises. \<open>list.index\<close> returns the first
  position whose entry is the value itself or equal to it, and raises when there is
  none. The maximum of a list is NaN only when the first entry is, so the position found
  for it is the position 0 of that very entry, as with the equality of \<open>fl\<close>.
\<close>

fun py_max :: "fl list \<Rightarrow> fl option" where
  "py_max [] = None"
| "py_max (x # xs) = Some (foldl (\<lambda>m y. if fl_gt y m then y else m) x xs)"

fun py_index :: "'a list \<Rightarrow> 'a \<Rightarrow> nat option" where
  "py_index [] v = None"
| "py_index (x # xs) v = (if x = v then Some 0 else map_option Suc (py_index xs v))"

text \<open>
  Lines 162 to 172, for one wheel: \<open>P = max(P_list)\<close> and
  \<open>slip = P_list.index(P)/100\<close>.
\<close>

definition peak :: "Tire \<Rightarrow> fl \<Rightarrow> (fl \<times> fl) option" where
  "peak t Fz = do {
     P \<leftarrow> py_max (P_list t Fz);
     i \<leftarrow> py_index (P_list t Fz) P;
     Some (P, Fin (real i / 100))
   }"

subsection \<open>One wheel of a tick\<close>

text \<open>
  \<^verbatim>\<open>scipy.optimize.fsolve\<close> is a library routine and a parameter of the model. Called
  as in line 193 it takes the residual function and the initial guess and returns the
  last iterate, any float. Whether the iteration met its tolerance is known to the
  routine only (it warns and returns all the same): the second component of the result
  is that flag, \<open>True\<close> for a converged solve.
\<close>

type_synonym solver = "(fl \<Rightarrow> fl) \<Rightarrow> fl \<Rightarrow> fl \<times> bool"

text \<open>
  Lines 162 to 184 for the wheel \<open>n\<close>: the peak force and its slip, the wheel speed, the
  driveline torque and the current that they ask for, \<open>(P, T, w, amps, slip)\<close>. The
  source runs these steps in loops over the wheels one after the other; every value of a
  wheel depends on the current state and on values of the same wheel only, so the model
  computes wheel after wheel.

  In line 176 the divisor \<open>r * (1 - slip)\<close> is a Python float, and zero when \<open>r\<close> is.
  At the first tick the speed is the Python float of line 99, and the division raises;
  no later tick exists then. In line 184 \<open>1 / k\<close> is a division of Python floats, and
  \<open>T / Kt\<close> one of numpy floats.
\<close>

definition required :: "Sim \<Rightarrow> nat \<Rightarrow> (fl \<times> fl \<times> fl \<times> fl \<times> fl) option" where
  "required s n = do {
     Fz \<leftarrow> nth_opt (current_Fz s) n;
     (P, slip) \<leftarrow> peak (Sim_Tire s) Fz;
     w \<leftarrow> (if Tire_r (Sim_Tire s) = 0 then None
           else Some (current_x_dot s / (Fin (Tire_r (Sim_Tire s)) * (Fin 1 - slip))));
     w_prev \<leftarrow> nth_opt (current_w s) n;
     let T = Fin (Tire_J (Sim_Tire s)) * (w - w_prev) + Fin (Tire_r (Sim_Tire s)) * P;
     k1 \<leftarrow> py_div 1 (Motor_k (Sim_Motor s));
     let amps = T / Fin (Motor_Kt (Sim_Motor s)) * Fin k1;
     Some (P, T, w, amps, slip)
   }"

text \<open>
  Lines 191 and 192: the torque that is set when the current is clamped to the burst
  current, \<open>T = amps * Kt * (1 / k)\<close> with \<open>amps = Burst\<close>.
\<close>

definition clamped_T :: "Motor \<Rightarrow> Battery \<Rightarrow> real option" where
  "clamped_T M B = do {
     k1 \<leftarrow> py_div 1 (Motor_k M);
     Some (Battery_Burst B * Motor_Kt M * k1)
   }"

text \<open>
  Lines 189 to 195 for the wheel \<open>n\<close>: when the current asked for is greater than the
  burst current, the current is the burst current, the torque follows from it, the wheel
  speed is what the root finder returns, and slip and force follow from the wheel speed.
  A current that is NaN is not greater than the burst current and stays.
\<close>

definition wheel :: "solver \<Rightarrow> Sim \<Rightarrow> nat \<Rightarrow> (fl \<times> fl \<times> fl \<times> fl \<times> fl) option" where
  "wheel fsolve s n = do {
     (P, T, w, amps, slip) \<leftarrow> required s n;
     if fl_gt amps (Fin (Battery_Burst (Sim_Battery s))) then do {
       let amps = Fin (Battery_Burst (Sim_Battery s));
       T \<leftarrow> clamped_T (Sim_Motor s) (Sim_Battery s);
       let w = fst (fsolve (\<lambda>w. w_fun s w (Fin T) n) (Fin 1));
       let slip = Fin 1 - current_x_dot s / (Fin (Tire_r (Sim_Tire s)) * w);
       let P = lonFriction (Sim_Tire s) slip (current_Fz s ! n) * current_Fz s ! n;
       Some (P, Fin T, w, amps, slip)
     } else Some (P, T, w, amps, slip)
   }"

subsection \<open>A tick\<close>

text \<open>Line 198, the air resistance at the current speed.\<close>

definition F_aero :: "Sim \<Rightarrow> fl" where
  "F_aero s =
     Fin (Vehicle_cd (Sim_Vehicle s) * 1.225) * (current_x_dot s * current_x_dot s) *
       Fin (Vehicle_A (Sim_Vehicle s)) / Fin 2"

text \<open>
  Line 211, the weight transfer \<open>wtfr = h / l * m * x_ddot / 9.81\<close>; \<open>h / l\<close> is a
  division of Python floats.
\<close>

definition weight_transfer :: "Sim \<Rightarrow> fl \<Rightarrow> fl option" where
  "weight_transfer s x_ddot = do {
     hl \<leftarrow> py_div (Vehicle_h (Sim_Vehicle s)) (Vehicle_l (Sim_Vehicle s));
     Some (Fin (hl * Vehicle_m (Sim_Vehicle s)) * x_ddot / Fin 9.81)
   }"

text \<open>
  Lines 214 to 217, the new normal forces of the wheels \<open>0\<close> to \<open>k - 1\<close>: the static
  load less half the weight transfer for the wheels 0 and 1, plus half of it for the
  others.
\<close>

definition new_Fz :: "Sim \<Rightarrow> fl \<Rightarrow> nat \<Rightarrow> fl list option" where
  "new_Fz s wtfr k =
     those (map (\<lambda>n. map_option
                        (\<lambda>Fz0. if n \<le> 1 then Fin Fz0 - wtfr / Fin 2 else Fin Fz0 + wtfr / Fin 2)
                        (nth_opt (inital_Fz s) n)) [0..<k])"

text \<open>
  \<^verbatim>\<open>Sim.accel_FrictionLimited\<close>, lines 139 to 221. The peak search of lines 154 to
  172 addresses the wheels 0 to 3 by name, and every list of the state has four entries
  in every state that \<open>Sim_init\<close> and this function build; a state with another number
  of loads is outside the model. The \<^verbatim>\<open>print\<close> of line 199 is left out.
\<close>

definition accel_FrictionLimited ::
  "solver \<Rightarrow> Sim \<Rightarrow>
     (fl \<times> fl \<times> fl \<times> real \<times> fl list \<times> fl list \<times> fl list \<times> fl list \<times> fl list) option" where
  "accel_FrictionLimited fsolve s =
     (if length (current_Fz s) \<noteq> 4 then None else do {
        ws \<leftarrow> those (map (wheel fsolve s) [0..<length (current_Fz s)]);
        let P = map (\<lambda>(P, T, w, amps, slip). P) ws;
        let w = map (\<lambda>(P, T, w, amps, slip). w) ws;
        let amps = map (\<lambda>(P, T, w, amps, slip). amps) ws;
        let slip = map (\<lambda>(P, T, w, amps, slip). slip) ws;
        let x_ddot = (py_sum P - F_aero s) / Fin (Vehicle_m (Sim_Vehicle s));
        let x_dot = current_x_dot s + x_ddot * Fin (Sim_dt s);
        let x = current_x s + x_dot * Fin (Sim_dt s);
        wtfr \<leftarrow> weight_transfer s x_ddot;
        Fz \<leftarrow> new_Fz s wtfr (length P);
        let time = current_time s + Sim_dt s;
        Some (x, x_dot, x_ddot, time, amps, Fz, P, slip, w)
      })"

subsection \<open>The driver\<close>

text \<open>
  Lines 227 to 235: the row of the output frame for the current state, the time, the
  position, the speed and the acceleration and then the entries 0 to 3 of the five
  lists (a committed state has no others).
\<close>

definition output_data :: "Sim \<Rightarrow> fl list" where
  "output_data s =
     [Fin (current_time s), current_x s, current_x_dot s, current_x_ddot s] @
     current_amps s @ current_Fz s @ current_P s @ current_slip s @ current_w s"

text \<open>
  One pass of the loop body of \<^verbatim>\<open>Sim.__call__\<close>, lines 225 to 237: the tick, the
  commit of its values, and one row appended to the output.
\<close>

definition tick :: "solver \<Rightarrow> Sim \<Rightarrow> Sim option" where
  "tick fsolve s = do {
     (x, x_dot, x_ddot, time, amps, Fz, P, slip, w) \<leftarrow> accel_FrictionLimited fsolve s;
     let s' = update_values s x x_dot x_ddot time amps Fz P slip w;
     Some (s'\<lparr>Sim_output := Sim_output s' @ [output_data s']\<rparr>)
   }"

text \<open>The loop of line 224 run for \<open>n\<close> passes; a tick that raises ends the run.\<close>

fun ticks :: "solver \<Rightarrow> nat \<Rightarrow> Sim \<Rightarrow> Sim option" where
  "ticks fsolve 0 s = Some s"
| "ticks fsolve (Suc n) s = do { s' \<leftarrow> tick fsolve s; ticks fsolve n s' }"

text \<open>
  Python's \<open>int\<close> of a float truncates towards zero, and \<open>range\<close> of a negative number
  is empty: \<open>range(int(runtime/dt))\<close> has this many elements.
\<close>

definition tick_count :: "Sim \<Rightarrow> nat option" where
  "tick_count s = do {
     q \<leftarrow> py_div (Sim_runtime s) (Sim_dt s);
     Some (nat (if q \<ge> 0 then \<lfloor>q\<rfloor> else \<lceil>q\<rceil>))
   }"

text \<open>\<^verbatim>\<open>Sim.__call__\<close>, lines 223 to 237.\<close>

definition call :: "solver \<Rightarrow> Sim \<Rightarrow> Sim option" where
  "call fsolve s = do { n \<leftarrow> tick_count s; ticks fsolve n s }"

subsection \<open>The reference configuration\<close>

text \<open>Lines 239 to 242: the vehicle, motor, tire and battery of the script.\<close>

definition frc_vehicle :: Vehicle where
  "frc_vehicle = Vehicle_init 0.126 0.126 5 0.032 0.75 0.0418"

text \<open>
  The motor \<^verbatim>\<open>Motor(2000, 0.8)\<close> as its constructor builds it (\<open>Motor_init_frc\<close> below):
  \<open>Kt = 1/(2000*0.10472)\<close>.
\<close>

definition frc_motor :: Motor where
  "frc_motor = \<lparr>Motor_Kv = 2000, Motor_Kt = 1 / (2000 * 0.10472), Motor_k = 0.8\<rparr>"

definition frc_tire :: Tire where
  "frc_tire = Tire_init 0.032 0.00001667 1.0301 16.6675 0.05343 65.1759"

definition frc_battery :: Battery where
  "frc_battery = Battery_init 10 5 3.6 8"

text \<open>Line 244: the simulation object of the script, with \<open>dt = 0.01\<close> and \<open>runtime = 20\<close>.\<close>

definition frc_sim :: "Sim option" where
  "frc_sim = Sim_init frc_vehicle frc_motor frc_tire frc_battery 0.01 20"

subsection \<open>Further inputs\<close>

text \<open>
  A root finder that makes no progress: it returns its initial guess as the last
  iterate, with the convergence flag \<open>c\<close>.
\<close>

definition fsolve_guess :: "bool \<Rightarrow> solver" where
  "fsolve_guess c = (\<lambda>g x0. (x0, c))"

text \<open>
  A root finder that returns the value \<open>v\<close> whatever it is asked, with the convergence
  flag \<open>c\<close>.
\<close>

definition fsolve_const :: "fl \<Rightarrow> bool \<Rightarrow> solver" where
  "fsolve_const v c = (\<lambda>g x0. (v, c))"

text \<open>
  The battery of the script with a capacity of 1 Ah instead of 10 Ah,
  \<^verbatim>\<open>Battery(1, 5, 3.6, 8)\<close>: its burst current is \<open>9.75\<close> A, less than the current
  that the peak traction of the script's tire asks for.
\<close>

definition weak_battery :: Battery where
  "weak_battery = Battery_init 1 5 3.6 8"

definition weak_sim :: "Sim option" where
  "weak_sim = Sim_init frc_vehicle frc_motor frc_tire weak_battery 0.01 20"

text \<open>
  The vehicle of the script with its centre of gravity over the front axle,
  \<^verbatim>\<open>Vehicle(0, 0.252, 5, 0.032, 0.75, 0.0418)\<close>: the rear wheels carry no static load.
\<close>

definition nose_vehicle :: Vehicle where
  "nose_vehicle = Vehicle_init 0 0.252 5 0.032 0.75 0.0418"

definition nose_sim :: "Sim option" where
  "nose_sim = Sim_init nose_vehicle frc_motor frc_tire frc_battery 0.01 20"

text \<open>A tire whose coefficient is \<open>sin (arctan slip)\<close>, which grows with the slip.\<close>

definition plain_tire :: Tire where
  "plain_tire = Tire_init 1 1 0 1 1 1"

section \<open>Properties of the tire model\<close>

lemma minus_Fin [simp]: "Fin x - Fin y = Fin (x - y)"
  by (simp add: minus_fl_def)

lemma lonFriction_Fx_Fin: "lonFriction_Fx t (Fin slip) (Fin F) = Fin (F * spec_mu t slip)"
  by (simp add: lonFriction_Fx_def spec_mu_def)

lemma lonFriction_nonzero: "F \<noteq> 0 \<Longrightarrow> lonFriction t (Fin slip) (Fin F) = Fin (spec_mu t slip)"
  by (simp add: lonFriction_def lonFriction_Fx_Fin)

lemma lonFriction_zero: "lonFriction t (Fin slip) (Fin 0) = NaN"
  by (simp add: lonFriction_def lonFriction_Fx_Fin)

lemma spec_mu_odd: "spec_mu t (- slip) = - spec_mu t slip"
proof -
  define y where "y = Tire_b t * slip - Tire_a t * (Tire_b t * slip - arctan (Tire_b t * slip))"
  have "Tire_b t * (- slip) - Tire_a t * (Tire_b t * (- slip) - arctan (Tire_b t * (- slip))) = - y"
    unfolding y_def by (simp add: arctan_minus algebra_simps)
  then have "spec_mu t (- slip) = Tire_d t * sin (Tire_c t * arctan (- y))"
    unfolding spec_mu_def by (rule arg_cong)
  also have "\<dots> = - (Tire_d t * sin (Tire_c t * arctan y))"
    by (simp add: arctan_minus)
  finally show ?thesis
    unfolding spec_mu_def y_def .
qed

lemma plus_NaN [simp]: "x + NaN = NaN" "NaN + x = NaN"
  by (cases x; simp)+

lemma times_NaN [simp]: "x * NaN = NaN" "NaN * x = NaN"
  by (cases x; simp)+

lemma divide_NaN [simp]: "x / NaN = NaN" "NaN / x = NaN"
  by (cases x; simp)+

lemma minus_NaN [simp]: "x - NaN = NaN" "NaN - x = NaN"
  by (simp_all add: minus_fl_def)

lemma times_uminus_right: "x * (- y) = - (x * (y::fl))"
  by (cases x; cases y) auto

lemma uminus_plus_uminus: "- x + - y = - (x + (y::fl))"
  by (cases x; cases y) auto

lemma divide_uminus_left: "(- x) / y = - (x / (y::fl))"
  by (cases x; cases y) auto

lemma farctan_uminus: "farctan (- x) = - farctan x"
  by (cases x) (simp_all add: arctan_minus)

lemma fsin_uminus: "fsin (- x) = - fsin x"
  by (cases x) simp_all

lemma uminus_Fin: "Fin (- x) = - Fin x"
  by simp

lemma lonFriction_Fx_odd: "lonFriction_Fx t (- slip) F = - lonFriction_Fx t slip F"
  by (simp add: lonFriction_Fx_def minus_fl_def times_uminus_right farctan_uminus
      uminus_plus_uminus fsin_uminus)

lemma lonFriction_zero_any: "lonFriction t slip (Fin 0) = NaN"
proof -
  define z where "z = fsin (Fin (Tire_c t) * farctan (Fin (Tire_b t) * slip -
                  Fin (Tire_a t) * (Fin (Tire_b t) * slip - farctan (Fin (Tire_b t) * slip))))"
  have "lonFriction t slip (Fin 0) = Fin 0 * Fin (Tire_d t) * z / Fin 0"
    by (simp add: lonFriction_def lonFriction_Fx_def z_def)
  also have "\<dots> = NaN" by (cases z) simp_all
  finally show ?thesis .
qed

text \<open>
  Claim C1, as the specification states it: for a normal force \<open>F > 0\<close> the call
  \<open>lonFriction(s, F)\<close> returns the force \<open>F * \<mu>\<close>. It does not: for the tire with
  \<open>a = 0\<close>, \<open>b = 1\<close>, \<open>c = 2\<close>, \<open>d = 1\<close>, the slip 1 and the normal force 2 the
  coefficient is \<open>sin (2 * arctan 1) = 1\<close>, the force would be 2, and the call returns 1.
\<close>

theorem lonFriction_not_force:
  "lonFriction (Tire_init 1 1 0 1 2 1) (Fin 1) (Fin 2) = Fin 1 \<and>
   2 * spec_mu (Tire_init 1 1 0 1 2 1) 1 = 2 \<and>
   lonFriction (Tire_init 1 1 0 1 2 1) (Fin 1) (Fin 2) \<noteq>
     Fin (2 * spec_mu (Tire_init 1 1 0 1 2 1) 1)"
  by (simp add: lonFriction_nonzero spec_mu_def Tire_init_def arctan_one)

text \<open>
  Claim C1, amended: for every slip and every normal force other than zero the call
  returns the friction coefficient \<open>\<mu>\<close> itself (line 79 divides the force by the normal
  force again); the force \<open>F * \<mu>\<close> is the value of the local variable \<open>Fx\<close>, and the
  callers get it back by multiplying the result with the normal force.
\<close>

theorem lonFriction_returns_coefficient:
  "F \<noteq> 0 \<Longrightarrow>
     lonFriction t (Fin slip) (Fin F) = Fin (spec_mu t slip) \<and>
     lonFriction_Fx t (Fin slip) (Fin F) = Fin (F * spec_mu t slip) \<and>
     lonFriction t (Fin slip) (Fin F) * Fin F = Fin (F * spec_mu t slip)"
  by (simp add: lonFriction_nonzero lonFriction_Fx_Fin)

theorem lonFriction_returns_coefficient_witness:
  "(2::real) \<noteq> 0 \<and> lonFriction (Tire_init 1 1 0 1 2 1) (Fin 1) (Fin 2) = Fin 1 \<and>
   lonFriction_Fx (Tire_init 1 1 0 1 2 1) (Fin 1) (Fin 2) = Fin 2"
  using lonFriction_returns_coefficient [of 2 "Tire_init 1 1 0 1 2 1" 1]
  by (simp add: spec_mu_def Tire_init_def arctan_one)

text \<open>
  Claim C7, as the specification states it: with a normal force of zero the call returns
  zero. It does not: line 79 divides the force \<open>Fx = 0\<close> by the normal force 0, and the
  call returns NaN.
\<close>

theorem lonFriction_zero_load_not_zero:
  "lonFriction (Tire_init 1 1 0 1 2 1) (Fin 1) (Fin 0) \<noteq> Fin 0"
  by (simp add: lonFriction_zero)

text \<open>
  Claim C7, amended: for any slip and a normal force of zero the force \<open>Fx\<close> computed in
  line 78 is zero, and the call itself divides it by the zero load and returns NaN, not
  zero; the division that has to be guarded against a zero load is inside the call. (The
  call returns NaN at a zero load for every float \<open>s\<close> given as the slip, finite or not.)
\<close>

theorem lonFriction_zero_load:
  "lonFriction_Fx t (Fin slip) (Fin 0) = Fin 0 \<and> lonFriction t (Fin slip) (Fin 0) = NaN \<and>
   lonFriction t s (Fin 0) = NaN"
  by (simp add: lonFriction_zero lonFriction_Fx_Fin lonFriction_zero_any)

text \<open>
  Claim C9: for every slip \<open>s\<close> and every normal force \<open>F\<close> the tire model is odd in the
  slip, \<open>f(-s, F) = - f(s, F)\<close>. This holds for all floats of the model, the infinities
  and NaN included (the negative of NaN is NaN).
\<close>

theorem lonFriction_odd:
  "lonFriction t (- slip) F = - lonFriction t slip F"
  by (simp add: lonFriction_def lonFriction_Fx_odd divide_uminus_left)

theorem lonFriction_odd_witness:
  "lonFriction (Tire_init 1 1 0 1 2 1) (Fin (- 1)) (Fin 2) = Fin (- 1)"
  using lonFriction_odd [of "Tire_init 1 1 0 1 2 1" "Fin 1" "Fin 2"]
  by (simp add: lonFriction_nonzero spec_mu_def Tire_init_def arctan_one)

section \<open>Properties of the peak-traction search\<close>

lemma fl_gt_irrefl [simp]: "\<not> fl_gt x x"
  by (cases x) simp_all

lemma fl_gt_step: "fl_gt y c \<Longrightarrow> \<not> fl_gt x c \<Longrightarrow> \<not> fl_gt x y"
  by (cases x; cases y; cases c) simp_all

lemma foldl_max_keeps:
  "\<not> fl_gt z m \<Longrightarrow> \<not> fl_gt z (foldl (\<lambda>m y. if fl_gt y m then y else m) m xs)"
proof (induction xs arbitrary: m)
  case Nil
  then show ?case by simp
next
  case (Cons x xs)
  have "\<not> fl_gt z (if fl_gt x m then x else m)"
    using Cons.prems by (auto dest: fl_gt_step)
  from Cons.IH [OF this] show ?case by simp
qed

lemma foldl_max_upper:
  "y \<in> set xs \<Longrightarrow> \<not> fl_gt y (foldl (\<lambda>m y. if fl_gt y m then y else m) m xs)"
proof (induction xs arbitrary: m)
  case Nil
  then show ?case by simp
next
  case (Cons x xs)
  show ?case
  proof (cases "y = x")
    case True
    have "\<not> fl_gt x (if fl_gt x m then x else m)" by simp
    from foldl_max_keeps [OF this] True show ?thesis by simp
  next
    case False
    with Cons.prems have "y \<in> set xs" by simp
    from Cons.IH [OF this] show ?thesis by simp
  qed
qed

lemma foldl_max_mem:
  "foldl (\<lambda>m y. if fl_gt y m then y else m) m xs \<in> insert m (set xs)"
proof (induction xs arbitrary: m)
  case Nil
  then show ?case by simp
next
  case (Cons x xs)
  from Cons [of "if fl_gt x m then x else m"] show ?case
    by (auto split: if_splits)
qed

lemma py_max_Some:
  "xs \<noteq> [] \<Longrightarrow> \<exists>m. py_max xs = Some m \<and> m \<in> set xs \<and> (\<forall>y \<in> set xs. \<not> fl_gt y m)"
proof (cases xs)
  case Nil
  assume "xs \<noteq> []"
  with Nil show ?thesis by simp
next
  case (Cons x xs')
  let ?m = "foldl (\<lambda>m y. if fl_gt y m then y else m) x xs'"
  have "?m \<in> set xs" using foldl_max_mem [of x xs'] Cons by simp
  moreover have "\<not> fl_gt x ?m" by (rule foldl_max_keeps) simp
  then have "\<forall>y \<in> set xs. \<not> fl_gt y ?m"
    using foldl_max_upper [of _ xs' x] Cons by auto
  ultimately show ?thesis using Cons by simp
qed

lemma py_index_Some:
  "v \<in> set xs \<Longrightarrow> \<exists>i. py_index xs v = Some i \<and> i < length xs \<and> xs ! i = v \<and> (\<forall>j<i. xs ! j \<noteq> v)"
proof (induction xs)
  case Nil
  then show ?case by simp
next
  case (Cons x xs)
  show ?case
  proof (cases "x = v")
    case True
    then show ?thesis by simp
  next
    case False
    with Cons.prems have "v \<in> set xs" by simp
    with Cons.IH obtain i where i: "py_index xs v = Some i" "i < length xs" "xs ! i = v"
      "\<forall>j<i. xs ! j \<noteq> v" by blast
    have "\<forall>j<Suc i. (x # xs) ! j \<noteq> v"
    proof (intro allI impI)
      fix j assume "j < Suc i"
      then show "(x # xs) ! j \<noteq> v"
        using False i(4) by (cases j) simp_all
    qed
    with i False show ?thesis by simp
  qed
qed

lemma peak_Some:
  "\<exists>k<100. peak t Fz = Some (P_sample t Fz k, Fin (real k / 100)) \<and>
     (\<forall>j<100. \<not> fl_gt (P_sample t Fz j) (P_sample t Fz k)) \<and>
     (\<forall>j<k. P_sample t Fz j \<noteq> P_sample t Fz k)"
proof -
  let ?l = "P_list t Fz"
  have len: "length ?l = 100" by (simp add: P_list_def)
  have nth: "?l ! j = P_sample t Fz j" if "j < 100" for j
    using that by (simp add: P_list_def)
  have ne0: "?l \<noteq> []" using len by auto
  from py_max_Some [OF ne0] obtain m where m: "py_max ?l = Some m" "m \<in> set ?l"
    "\<forall>y \<in> set ?l. \<not> fl_gt y m" by blast
  from py_index_Some [OF m(2)] obtain i where i: "py_index ?l m = Some i" "i < length ?l"
    "?l ! i = m" "\<forall>j<i. ?l ! j \<noteq> m" by blast
  have i100: "i < 100" using i(2) len by simp
  have mi: "P_sample t Fz i = m" using i(3) nth [OF i100] by simp
  have le: "\<forall>j<100. \<not> fl_gt (P_sample t Fz j) (P_sample t Fz i)"
  proof (intro allI impI)
    fix j :: nat assume j: "j < 100"
    have "?l ! j \<in> set ?l" using j len by (intro nth_mem) simp
    then have "\<not> fl_gt (?l ! j) m" using m(3) by blast
    then show "\<not> fl_gt (P_sample t Fz j) (P_sample t Fz i)"
      using nth [OF j] mi by simp
  qed
  have ne: "\<forall>j<i. P_sample t Fz j \<noteq> P_sample t Fz i"
  proof (intro allI impI)
    fix j :: nat assume j: "j < i"
    have j100: "j < 100" using j i100 by simp
    have "?l ! j \<noteq> m" using i(4) j by blast
    then show "P_sample t Fz j \<noteq> P_sample t Fz i" using nth [OF j100] mi by simp
  qed
  have pk: "peak t Fz = Some (P_sample t Fz i, Fin (real i / 100))"
    by (simp add: peak_def m(1) i(1) mi)
  from i100 pk le ne show ?thesis by (intro exI [of _ i] conjI)
qed

lemma P_sample_Fin: "F \<noteq> 0 \<Longrightarrow> P_sample t (Fin F) n = Fin (spec_mu t (real n / 100) * F)"
  by (simp add: P_sample_def lonFriction_nonzero)

lemma P_sample_zero: "P_sample t (Fin 0) n = NaN"
  by (simp add: P_sample_def lonFriction_zero)

lemma peak_nonzero:
  assumes "F \<noteq> 0"
  shows "\<exists>k<100. peak t (Fin F) = Some (Fin (spec_mu t (real k / 100) * F), Fin (real k / 100)) \<and>
           (\<forall>j<100. spec_mu t (real j / 100) * F \<le> spec_mu t (real k / 100) * F) \<and>
           (\<forall>j<k. spec_mu t (real j / 100) * F < spec_mu t (real k / 100) * F)"
proof -
  have eq: "P_sample t (Fin F) n = Fin (spec_mu t (real n / 100) * F)" for n
    using assms by (rule P_sample_Fin)
  from peak_Some [of t "Fin F"] obtain k where k: "k < 100"
    "peak t (Fin F) = Some (P_sample t (Fin F) k, Fin (real k / 100))"
    "\<forall>j<100. \<not> fl_gt (P_sample t (Fin F) j) (P_sample t (Fin F) k)"
    "\<forall>j<k. P_sample t (Fin F) j \<noteq> P_sample t (Fin F) k" by blast
  have le: "\<forall>j<100. spec_mu t (real j / 100) * F \<le> spec_mu t (real k / 100) * F"
    using k(3) by (simp only: eq fl_gt.simps not_less)
  have ne: "\<forall>j<k. spec_mu t (real j / 100) * F \<noteq> spec_mu t (real k / 100) * F"
    using k(4) by (simp only: eq fl.inject)
  have lt: "\<forall>j<k. spec_mu t (real j / 100) * F < spec_mu t (real k / 100) * F"
  proof (intro allI impI)
    fix j :: nat assume j: "j < k"
    then have "j < 100" using k(1) by simp
    with le have "spec_mu t (real j / 100) * F \<le> spec_mu t (real k / 100) * F" by blast
    moreover from ne j have "spec_mu t (real j / 100) * F \<noteq> spec_mu t (real k / 100) * F"
      by blast
    ultimately show "spec_mu t (real j / 100) * F < spec_mu t (real k / 100) * F"
      by (rule le_neq_trans)
  qed
  have pk: "peak t (Fin F) = Some (Fin (spec_mu t (real k / 100) * F), Fin (real k / 100))"
    using k(2) by (simp only: eq)
  from k(1) pk le lt show ?thesis by (intro exI [of _ k] conjI)
qed

lemma peak_zero: "peak t (Fin 0) = Some (NaN, Fin 0)"
proof -
  from peak_Some [of t "Fin 0"] obtain k where k: "k < 100"
    "peak t (Fin 0) = Some (P_sample t (Fin 0) k, Fin (real k / 100))"
    "\<forall>j<k. P_sample t (Fin 0) j \<noteq> P_sample t (Fin 0) k" by blast
  have "k = 0"
  proof (rule ccontr)
    assume "k \<noteq> 0"
    then have "0 < k" by simp
    with k(3) show False by (simp add: P_sample_zero)
  qed
  with k(2) show ?thesis by (simp add: P_sample_zero)
qed

lemma plain_mu: "spec_mu plain_tire s = sin (arctan s)"
  by (simp add: spec_mu_def plain_tire_def Tire_init_def)

lemma plain_mu_mono: "s < s' \<Longrightarrow> spec_mu plain_tire s < spec_mu plain_tire s'"
proof -
  assume "s < s'"
  then have "arctan s < arctan s'" by (rule arctan_monotone)
  moreover have "- (pi / 2) \<le> arctan s" using arctan_lbound [of s] by simp
  moreover have "arctan s' \<le> pi / 2" using arctan_ubound [of s'] by simp
  ultimately have "sin (arctan s) < sin (arctan s')" by (intro sin_monotone_2pi)
  then show ?thesis by (simp add: plain_mu)
qed

text \<open>
  Claim C4: for every tire and every load \<open>Fz\<close> of a wheel the peak-traction search
  returns a sample of the grid \<open>0, 0.01, \<dots>, 0.99\<close>: the force
  \<open>lonFriction(k/100, Fz) * Fz\<close> and the slip \<open>k/100\<close> of one \<open>k < 100\<close>. No sample of the
  grid is greater than the one returned, and no sample at a lower slip is equal to it: the
  search returns the first maximal sample. For a finite load other than zero all samples
  are finite, every sample is less than or equal to the one returned and every sample at a
  lower slip is less than it, which makes the result the argmax over the grid with ties
  going to the lowest slip. (For a load of zero every sample is NaN and the search returns
  NaN at the slip 0; nothing is greater than NaN.)
\<close>

theorem peak_first_argmax:
  "\<exists>k<100.
     peak t Fz = Some (lonFriction t (Fin (real k / 100)) Fz * Fz, Fin (real k / 100)) \<and>
     (\<forall>j<100. \<not> fl_gt (lonFriction t (Fin (real j / 100)) Fz * Fz)
                       (lonFriction t (Fin (real k / 100)) Fz * Fz)) \<and>
     (\<forall>j<k. lonFriction t (Fin (real j / 100)) Fz * Fz \<noteq>
             lonFriction t (Fin (real k / 100)) Fz * Fz) \<and>
     (is_Fin Fz \<and> Fz \<noteq> Fin 0 \<longrightarrow>
        (\<forall>j<100. fl_le (lonFriction t (Fin (real j / 100)) Fz * Fz)
                       (lonFriction t (Fin (real k / 100)) Fz * Fz)) \<and>
        (\<forall>j<k. fl_lt (lonFriction t (Fin (real j / 100)) Fz * Fz)
                     (lonFriction t (Fin (real k / 100)) Fz * Fz)))"
proof -
  from peak_Some [of t Fz] obtain k where k: "k < 100"
    "peak t Fz = Some (P_sample t Fz k, Fin (real k / 100))"
    "\<forall>j<100. \<not> fl_gt (P_sample t Fz j) (P_sample t Fz k)"
    "\<forall>j<k. P_sample t Fz j \<noteq> P_sample t Fz k" by blast
  have fin: "is_Fin Fz \<and> Fz \<noteq> Fin 0 \<longrightarrow>
             (\<forall>j<100. fl_le (P_sample t Fz j) (P_sample t Fz k)) \<and>
             (\<forall>j<k. fl_lt (P_sample t Fz j) (P_sample t Fz k))"
  proof
    assume a: "is_Fin Fz \<and> Fz \<noteq> Fin 0"
    then obtain F where F: "Fz = Fin F" "F \<noteq> 0" by (cases Fz) auto
    have eq: "P_sample t Fz n = Fin (spec_mu t (real n / 100) * F)" for n
      unfolding F(1) using F(2) by (rule P_sample_Fin)
    have le: "\<forall>j<100. fl_le (P_sample t Fz j) (P_sample t Fz k)"
      using k(3) by (simp add: eq fl_le_def)
    have ne: "\<forall>j<k. spec_mu t (real j / 100) * F \<noteq> spec_mu t (real k / 100) * F"
      using k(4) by (simp only: eq fl.inject)
    have lt: "\<forall>j<k. fl_lt (P_sample t Fz j) (P_sample t Fz k)"
    proof (intro allI impI)
      fix j :: nat assume j: "j < k"
      then have "j < 100" using k(1) by simp
      with k(3) have "\<not> fl_gt (P_sample t Fz j) (P_sample t Fz k)" by blast
      then have "spec_mu t (real j / 100) * F \<le> spec_mu t (real k / 100) * F"
        by (simp only: eq fl_gt.simps not_less)
      moreover from ne j have "spec_mu t (real j / 100) * F \<noteq> spec_mu t (real k / 100) * F"
        by blast
      ultimately have "spec_mu t (real j / 100) * F < spec_mu t (real k / 100) * F"
        by (rule le_neq_trans)
      then show "fl_lt (P_sample t Fz j) (P_sample t Fz k)"
        by (simp only: eq fl_lt_def fl_gt.simps)
    qed
    from le lt show "(\<forall>j<100. fl_le (P_sample t Fz j) (P_sample t Fz k)) \<and>
             (\<forall>j<k. fl_lt (P_sample t Fz j) (P_sample t Fz k))" ..
  qed
  from k(1) k(2) k(3) k(4) fin show ?thesis
    unfolding P_sample_def by (intro exI [of _ k] conjI)
qed

theorem peak_first_argmax_witness:
  "is_Fin (Fin 2) \<and> Fin 2 \<noteq> Fin 0 \<and>
   peak plain_tire (Fin 2) =
     Some (lonFriction plain_tire (Fin (99 / 100)) (Fin 2) * Fin 2, Fin (99 / 100)) \<and>
   lonFriction plain_tire (Fin (99 / 100)) (Fin 2) * Fin 2 = Fin (sin (arctan (99 / 100)) * 2) \<and>
   fl_lt (lonFriction plain_tire (Fin (98 / 100)) (Fin 2) * Fin 2)
         (lonFriction plain_tire (Fin (99 / 100)) (Fin 2) * Fin 2)"
proof -
  let ?S = "\<lambda>j::nat. lonFriction plain_tire (Fin (real j / 100)) (Fin 2) * Fin 2"
  have S: "lonFriction plain_tire (Fin x) (Fin 2) * Fin 2 = Fin (sin (arctan x) * 2)" for x
    by (simp add: lonFriction_nonzero plain_mu)
  from peak_first_argmax [of plain_tire "Fin 2"] obtain k where k: "k < 100"
    "peak plain_tire (Fin 2) = Some (?S k, Fin (real k / 100))"
    "\<forall>j<100. \<not> fl_gt (?S j) (?S k)"
    "is_Fin (Fin 2) \<and> Fin 2 \<noteq> Fin 0 \<longrightarrow> (\<forall>j<k. fl_lt (?S j) (?S k))"
    by blast
  have "k = 99"
  proof (rule ccontr)
    assume "k \<noteq> 99"
    with k(1) have "k < 99" by simp
    then have "real k / 100 < real 99 / 100" by simp
    from plain_mu_mono [OF this] have "fl_gt (?S 99) (?S k)"
      by (simp add: S plain_mu)
    moreover have "(99::nat) < 100" by simp
    ultimately show False using k(3) by blast
  qed
  moreover have "sin (arctan (98 / 100)) < sin (arctan (99 / 100 :: real))"
    using plain_mu_mono [of "98 / 100" "99 / 100"] by (simp add: plain_mu)
  ultimately show ?thesis using k(2) by (simp add: S fl_lt_def)
qed

section \<open>Properties of a tick\<close>

lemma those_map_Some:
  "(\<And>x. x \<in> set xs \<Longrightarrow> f x = Some (g x)) \<Longrightarrow> those (map f xs) = Some (map g xs)"
  by (induction xs) simp_all

lemma those_map_length:
  "those (map f xs) = Some ys \<Longrightarrow> length ys = length xs"
  by (induction xs arbitrary: ys) (auto split: option.splits)

lemma those_map_nth:
  "those (map f xs) = Some ys \<Longrightarrow> n < length xs \<Longrightarrow> f (xs ! n) = Some (ys ! n)"
proof (induction xs arbitrary: ys n)
  case Nil
  then show ?case by simp
next
  case (Cons x xs)
  then show ?case
    by (cases n) (auto split: option.splits)
qed

lemma upt_4: "[0..<4] = [0, 1, 2, 3]"
  by (simp add: upt_rec)

lemma nth_4_cases: "n < 4 \<Longrightarrow> n = 0 \<or> n = 1 \<or> n = 2 \<or> n = (3::nat)"
  by arith

lemma required_eq:
  assumes "n < length (current_Fz s)" and "n < length (current_w s)"
    and "Tire_r (Sim_Tire s) \<noteq> 0" and "Motor_k (Sim_Motor s) \<noteq> 0"
    and "peak (Sim_Tire s) (current_Fz s ! n) = Some (P, slip)"
  shows "required s n =
     Some (P,
           Fin (Tire_J (Sim_Tire s)) *
             (current_x_dot s / (Fin (Tire_r (Sim_Tire s)) * (Fin 1 - slip)) - current_w s ! n) +
             Fin (Tire_r (Sim_Tire s)) * P,
           current_x_dot s / (Fin (Tire_r (Sim_Tire s)) * (Fin 1 - slip)),
           (Fin (Tire_J (Sim_Tire s)) *
             (current_x_dot s / (Fin (Tire_r (Sim_Tire s)) * (Fin 1 - slip)) - current_w s ! n) +
             Fin (Tire_r (Sim_Tire s)) * P) / Fin (Motor_Kt (Sim_Motor s)) *
             Fin (1 / Motor_k (Sim_Motor s)),
           slip)"
  using assms by (simp add: required_def nth_opt_def py_div_def Let_def)

lemma required_total:
  assumes "n < length (current_Fz s)" and "n < length (current_w s)"
    and "Tire_r (Sim_Tire s) \<noteq> 0" and "Motor_k (Sim_Motor s) \<noteq> 0"
  shows "\<exists>r. required s n = Some r"
proof -
  from peak_Some [of "Sim_Tire s" "current_Fz s ! n"] obtain P slip where
    "peak (Sim_Tire s) (current_Fz s ! n) = Some (P, slip)" by blast
  from required_eq [OF assms this] show ?thesis by blast
qed

lemma required_SomeD:
  assumes "required s n = Some r"
  shows "n < length (current_Fz s) \<and> n < length (current_w s) \<and>
         Tire_r (Sim_Tire s) \<noteq> 0 \<and> Motor_k (Sim_Motor s) \<noteq> 0"
  using assms
  by (auto simp: required_def nth_opt_def py_div_def Let_def
      split: Option.bind_splits if_splits prod.splits)

lemma wheel_not_clamped:
  assumes "required s n = Some (P, T, w, amps, slip)"
    and "\<not> fl_gt amps (Fin (Battery_Burst (Sim_Battery s)))"
  shows "wheel f s n = Some (P, T, w, amps, slip)"
  using assms by (simp add: wheel_def)

lemma wheel_clamped:
  assumes "required s n = Some (P, T, w, amps, slip)"
    and "fl_gt amps (Fin (Battery_Burst (Sim_Battery s)))"
  shows "wheel f s n =
     Some (lonFriction (Sim_Tire s)
             (Fin 1 - current_x_dot s /
                (Fin (Tire_r (Sim_Tire s)) *
                 fst (f (\<lambda>w. w_fun s w
                     (Fin (Battery_Burst (Sim_Battery s) * Motor_Kt (Sim_Motor s) *
                           (1 / Motor_k (Sim_Motor s)))) n) (Fin 1))))
             (current_Fz s ! n) * current_Fz s ! n,
           Fin (Battery_Burst (Sim_Battery s) * Motor_Kt (Sim_Motor s) *
                (1 / Motor_k (Sim_Motor s))),
           fst (f (\<lambda>w. w_fun s w
                     (Fin (Battery_Burst (Sim_Battery s) * Motor_Kt (Sim_Motor s) *
                           (1 / Motor_k (Sim_Motor s)))) n) (Fin 1)),
           Fin (Battery_Burst (Sim_Battery s)),
           Fin 1 - current_x_dot s /
                (Fin (Tire_r (Sim_Tire s)) *
                 fst (f (\<lambda>w. w_fun s w
                     (Fin (Battery_Burst (Sim_Battery s) * Motor_Kt (Sim_Motor s) *
                           (1 / Motor_k (Sim_Motor s)))) n) (Fin 1))))"
proof -
  from required_SomeD [OF assms(1)] have "Motor_k (Sim_Motor s) \<noteq> 0" by simp
  then show ?thesis
    using assms by (simp add: wheel_def clamped_T_def py_div_def Let_def)
qed

lemma wheel_total:
  assumes "n < length (current_Fz s)" and "n < length (current_w s)"
    and "Tire_r (Sim_Tire s) \<noteq> 0" and "Motor_k (Sim_Motor s) \<noteq> 0"
  shows "\<exists>r. wheel f s n = Some r"
proof -
  from required_total [OF assms] obtain r where "required s n = Some r" by blast
  then obtain P T w amps slip where r: "required s n = Some (P, T, w, amps, slip)"
    by (metis prod_cases5)
  show ?thesis
  proof (cases "fl_gt amps (Fin (Battery_Burst (Sim_Battery s)))")
    case True
    from wheel_clamped [OF r True] show ?thesis by blast
  next
    case False
    from wheel_not_clamped [OF r False] show ?thesis by blast
  qed
qed

lemma wheel_amps:
  assumes "wheel f s n = Some (P, T, w, amps, slip)"
  shows "amps = NaN \<or> fl_le amps (Fin (Battery_Burst (Sim_Battery s)))"
proof -
  from assms obtain r where "required s n = Some r"
    by (auto simp: wheel_def split: Option.bind_splits)
  then obtain P0 T0 w0 a0 slip0 where r: "required s n = Some (P0, T0, w0, a0, slip0)"
    by (metis prod_cases5)
  show ?thesis
  proof (cases "fl_gt a0 (Fin (Battery_Burst (Sim_Battery s)))")
    case True
    from wheel_clamped [OF r True, of f] assms
    have "amps = Fin (Battery_Burst (Sim_Battery s))" by simp
    then show ?thesis by (simp add: fl_le_def)
  next
    case False
    from wheel_not_clamped [OF r False, of f] assms have "amps = a0" by simp
    with False show ?thesis by (auto simp: fl_le_def)
  qed
qed

lemma accel_SomeD:
  assumes "accel_FrictionLimited f s = Some (x, x_dot, x_ddot, time, amps, Fz, P, slip, w)"
  shows "length (current_Fz s) = 4"
    and "\<exists>ws. those (map (wheel f s) [0..<4]) = Some ws \<and>
           P = map (\<lambda>(P, T, w, amps, slip). P) ws \<and>
           w = map (\<lambda>(P, T, w, amps, slip). w) ws \<and>
           amps = map (\<lambda>(P, T, w, amps, slip). amps) ws \<and>
           slip = map (\<lambda>(P, T, w, amps, slip). slip) ws"
    and "x_ddot = (py_sum P - F_aero s) / Fin (Vehicle_m (Sim_Vehicle s))"
    and "x_dot = current_x_dot s + x_ddot * Fin (Sim_dt s)"
    and "x = current_x s + x_dot * Fin (Sim_dt s)"
    and "time = current_time s + Sim_dt s"
    and "\<exists>wtfr. weight_transfer s x_ddot = Some wtfr \<and> new_Fz s wtfr 4 = Some Fz"
  using assms
  by (auto simp: accel_FrictionLimited_def Let_def
      split: if_splits Option.bind_splits dest: those_map_length)

lemma accel_lengths:
  assumes "accel_FrictionLimited f s = Some (x, x_dot, x_ddot, time, amps, Fz, P, slip, w)"
  shows "length amps = 4 \<and> length Fz = 4 \<and> length P = 4 \<and> length slip = 4 \<and> length w = 4"
proof -
  from accel_SomeD(2) [OF assms] obtain ws where
    ws: "those (map (wheel f s) [0..<4]) = Some ws"
    "P = map (\<lambda>(P, T, w, amps, slip). P) ws" "w = map (\<lambda>(P, T, w, amps, slip). w) ws"
    "amps = map (\<lambda>(P, T, w, amps, slip). amps) ws" "slip = map (\<lambda>(P, T, w, amps, slip). slip) ws"
    by blast
  from accel_SomeD(7) [OF assms] obtain wtfr where "new_Fz s wtfr 4 = Some Fz" by blast
  then have "length Fz = 4" unfolding new_Fz_def by (auto dest: those_map_length)
  moreover have "length ws = 4" using those_map_length [OF ws(1)] by simp
  ultimately show ?thesis using ws by simp
qed

lemma accel_wheel:
  assumes "accel_FrictionLimited f s = Some (x, x_dot, x_ddot, time, amps, Fz, P, slip, w)"
    and "i < 4"
  shows "\<exists>T. wheel f s i = Some (P ! i, T, w ! i, amps ! i, slip ! i)"
proof -
  from accel_SomeD(2) [OF assms(1)] obtain ws where
    ws: "those (map (wheel f s) [0..<4]) = Some ws"
    "P = map (\<lambda>(P, T, w, amps, slip). P) ws" "w = map (\<lambda>(P, T, w, amps, slip). w) ws"
    "amps = map (\<lambda>(P, T, w, amps, slip). amps) ws" "slip = map (\<lambda>(P, T, w, amps, slip). slip) ws"
    by blast
  have len: "length ws = 4" using those_map_length [OF ws(1)] by simp
  have "wheel f s ([0..<4] ! i) = Some (ws ! i)"
    using those_map_nth [OF ws(1), of i] assms(2) by simp
  then have wi: "wheel f s i = Some (ws ! i)" using assms(2) by simp
  obtain P' T' w' a' slip' where r: "ws ! i = (P', T', w', a', slip')"
    by (cases "ws ! i") auto
  have "P ! i = P'" "w ! i = w'" "amps ! i = a'" "slip ! i = slip'"
    using ws(2-5) len assms(2) r by simp_all
  with wi r show ?thesis by simp
qed

lemma accel_amps:
  assumes "accel_FrictionLimited f s = Some (x, x_dot, x_ddot, time, amps, Fz, P, slip, w)"
    and "i < 4"
  shows "amps ! i = NaN \<or> fl_le (amps ! i) (Fin (Battery_Burst (Sim_Battery s)))"
proof -
  from accel_wheel [OF assms] obtain T where
    "wheel f s i = Some (P ! i, T, w ! i, amps ! i, slip ! i)" by blast
  then show ?thesis by (rule wheel_amps)
qed

lemma new_Fz_4:
  assumes "new_Fz s wtfr 4 = Some Fz" and "inital_Fz s = [i0, i1, i2, i3]"
  shows "Fz = [Fin i0 - wtfr / Fin 2, Fin i1 - wtfr / Fin 2,
               Fin i2 + wtfr / Fin 2, Fin i3 + wtfr / Fin 2]"
  using assms by (auto simp: new_Fz_def upt_4 nth_opt_def)

lemma new_Fz_total:
  assumes "inital_Fz s = [i0, i1, i2, i3]"
  shows "new_Fz s wtfr 4 = Some [Fin i0 - wtfr / Fin 2, Fin i1 - wtfr / Fin 2,
               Fin i2 + wtfr / Fin 2, Fin i3 + wtfr / Fin 2]"
  using assms by (simp add: new_Fz_def upt_4 nth_opt_def)

lemma wheels_total:
  assumes "length (current_Fz s) = 4" and "length (current_w s) = 4"
    and "Tire_r (Sim_Tire s) \<noteq> 0" and "Motor_k (Sim_Motor s) \<noteq> 0"
  shows "\<exists>ws. those (map (wheel f s) [0..<4]) = Some ws"
proof -
  have "wheel f s n = Some (the (wheel f s n))" if "n \<in> set [0..<4]" for n
  proof -
    from that have "n < length (current_Fz s)" "n < length (current_w s)"
      using assms(1,2) by simp_all
    from wheel_total [OF this assms(3,4)] show ?thesis by auto
  qed
  from those_map_Some [of "[0..<4]" "wheel f s" "\<lambda>n. the (wheel f s n)", OF this]
  show ?thesis by blast
qed

lemma accel_of_wheels:
  assumes "length (current_Fz s) = 4"
    and "those (map (wheel f s) [0..<4]) = Some ws"
    and "weight_transfer s ((py_sum (map (\<lambda>(P, T, w, amps, slip). P) ws) - F_aero s) /
            Fin (Vehicle_m (Sim_Vehicle s))) = Some wtfr"
    and "new_Fz s wtfr 4 = Some Fz"
  shows "accel_FrictionLimited f s =
     Some (current_x s +
             (current_x_dot s +
                (py_sum (map (\<lambda>(P, T, w, amps, slip). P) ws) - F_aero s) /
                  Fin (Vehicle_m (Sim_Vehicle s)) * Fin (Sim_dt s)) * Fin (Sim_dt s),
           current_x_dot s +
             (py_sum (map (\<lambda>(P, T, w, amps, slip). P) ws) - F_aero s) /
               Fin (Vehicle_m (Sim_Vehicle s)) * Fin (Sim_dt s),
           (py_sum (map (\<lambda>(P, T, w, amps, slip). P) ws) - F_aero s) /
             Fin (Vehicle_m (Sim_Vehicle s)),
           current_time s + Sim_dt s,
           map (\<lambda>(P, T, w, amps, slip). amps) ws, Fz,
           map (\<lambda>(P, T, w, amps, slip). P) ws,
           map (\<lambda>(P, T, w, amps, slip). slip) ws,
           map (\<lambda>(P, T, w, amps, slip). w) ws)"
proof -
  have "length ws = 4" using those_map_length [OF assms(2)] by simp
  then show ?thesis
    using assms by (simp add: accel_FrictionLimited_def Let_def)
qed

lemma accel_total:
  assumes "length (current_Fz s) = 4" and "length (current_w s) = 4"
    and "length (inital_Fz s) = 4"
    and "Tire_r (Sim_Tire s) \<noteq> 0" and "Motor_k (Sim_Motor s) \<noteq> 0"
    and "Vehicle_l (Sim_Vehicle s) \<noteq> 0"
  shows "\<exists>r. accel_FrictionLimited f s = Some r"
proof -
  from wheels_total [OF assms(1,2,4,5)] obtain ws where
    ws: "those (map (wheel f s) [0..<4]) = Some ws" by blast
  let ?a = "(py_sum (map (\<lambda>(P, T, w, amps, slip). P) ws) - F_aero s) /
            Fin (Vehicle_m (Sim_Vehicle s))"
  from assms(6) obtain wtfr where wt: "weight_transfer s ?a = Some wtfr"
    by (simp add: weight_transfer_def py_div_def)
  from assms(3) obtain i0 i1 i2 i3 where "inital_Fz s = [i0, i1, i2, i3]"
    by (auto simp: length_Suc_conv eval_nat_numeral)
  from new_Fz_total [OF this, of wtfr] obtain Fz where Fz: "new_Fz s wtfr 4 = Some Fz" by blast
  from accel_of_wheels [OF assms(1) ws wt Fz] show ?thesis by blast
qed

lemma tick_SomeD:
  assumes "tick f s = Some s'"
  shows "\<exists>x x_dot x_ddot time amps Fz P slip w.
           accel_FrictionLimited f s = Some (x, x_dot, x_ddot, time, amps, Fz, P, slip, w) \<and>
           s' = (update_values s x x_dot x_ddot time amps Fz P slip w)
                  \<lparr>Sim_output := Sim_output s @
                     [output_data (update_values s x x_dot x_ddot time amps Fz P slip w)]\<rparr>"
  using assms
  by (auto simp: tick_def Let_def update_values_def split: Option.bind_splits prod.splits)

lemma tick_of_accel:
  assumes "accel_FrictionLimited f s = Some (x, x_dot, x_ddot, time, amps, Fz, P, slip, w)"
  shows "tick f s = Some ((update_values s x x_dot x_ddot time amps Fz P slip w)
                  \<lparr>Sim_output := Sim_output s @
                     [output_data (update_values s x x_dot x_ddot time amps Fz P slip w)]\<rparr>)"
  using assms by (simp add: tick_def Let_def update_values_def)

lemma tick_config:
  assumes "tick f s = Some s'"
  shows "Sim_Vehicle s' = Sim_Vehicle s" "Sim_Motor s' = Sim_Motor s" "Sim_Tire s' = Sim_Tire s"
    "Sim_Battery s' = Sim_Battery s" "Sim_dt s' = Sim_dt s" "Sim_runtime s' = Sim_runtime s"
    "inital_Fz s' = inital_Fz s" "length (Sim_output s') = Suc (length (Sim_output s))"
  using tick_SomeD [OF assms] by (auto simp: update_values_def)

lemma tick_lengths:
  assumes "tick f s = Some s'"
  shows "length (current_Fz s') = 4" "length (current_w s') = 4" "length (current_amps s') = 4"
proof -
  from tick_SomeD [OF assms] obtain x x_dot x_ddot time amps Fz P slip w where
    a: "accel_FrictionLimited f s = Some (x, x_dot, x_ddot, time, amps, Fz, P, slip, w)"
    and s': "s' = (update_values s x x_dot x_ddot time amps Fz P slip w)
                  \<lparr>Sim_output := Sim_output s @
                     [output_data (update_values s x x_dot x_ddot time amps Fz P slip w)]\<rparr>"
    by blast
  from accel_lengths [OF a] s' show "length (current_Fz s') = 4" "length (current_w s') = 4"
    "length (current_amps s') = 4"
    by (simp_all add: update_values_def)
qed

lemma tick_total:
  assumes "length (current_Fz s) = 4" and "length (current_w s) = 4"
    and "length (inital_Fz s) = 4"
    and "Tire_r (Sim_Tire s) \<noteq> 0" and "Motor_k (Sim_Motor s) \<noteq> 0"
    and "Vehicle_l (Sim_Vehicle s) \<noteq> 0"
  shows "\<exists>s'. tick f s = Some s'"
proof -
  from accel_total [OF assms] obtain r where "accel_FrictionLimited f s = Some r" by blast
  then obtain x x_dot x_ddot time amps Fz P slip w where
    "accel_FrictionLimited f s = Some (x, x_dot, x_ddot, time, amps, Fz, P, slip, w)"
    by (metis prod_cases3)
  from tick_of_accel [OF this] show ?thesis by blast
qed

lemma ticks_config:
  "ticks f n s = Some s' \<Longrightarrow>
     Sim_Vehicle s' = Sim_Vehicle s \<and> Sim_Motor s' = Sim_Motor s \<and> Sim_Tire s' = Sim_Tire s \<and>
     Sim_Battery s' = Sim_Battery s \<and> Sim_dt s' = Sim_dt s \<and> Sim_runtime s' = Sim_runtime s \<and>
     inital_Fz s' = inital_Fz s \<and> length (Sim_output s') = length (Sim_output s) + n"
proof (induction n arbitrary: s)
  case 0
  then show ?case by simp
next
  case (Suc n)
  from Suc.prems obtain s1 where s1: "tick f s = Some s1" "ticks f n s1 = Some s'"
    by (auto split: Option.bind_splits)
  from Suc.IH [OF s1(2)] tick_config [OF s1(1)] show ?case by simp
qed

lemma ticks_Suc_last:
  "ticks f (Suc n) s = Some s' \<Longrightarrow> \<exists>s1. ticks f n s = Some s1 \<and> tick f s1 = Some s'"
proof (induction n arbitrary: s)
  case 0
  then show ?case by (auto split: Option.bind_splits)
next
  case (Suc n)
  from Suc.prems obtain s1 where s1: "tick f s = Some s1" "ticks f (Suc n) s1 = Some s'"
    by (auto split: Option.bind_splits)
  from Suc.IH [OF s1(2)] obtain s2 where "ticks f n s1 = Some s2" "tick f s2 = Some s'" by blast
  with s1(1) show ?case by simp
qed

lemma ticks_snoc:
  "ticks f n s = Some s1 \<Longrightarrow> tick f s1 = Some s' \<Longrightarrow> ticks f (Suc n) s = Some s'"
proof (induction n arbitrary: s)
  case 0
  then show ?case by simp
next
  case (Suc n)
  from Suc.prems(1) obtain s2 where s2: "tick f s = Some s2" "ticks f n s2 = Some s1"
    by (auto split: Option.bind_splits)
  from Suc.IH [OF s2(2) Suc.prems(2)] s2(1) show ?case by simp
qed

lemma ticks_lengths:
  assumes "ticks f n s = Some s'"
    and "length (current_Fz s) = 4" and "length (current_w s) = 4"
    and "length (current_amps s) = 4"
  shows "length (current_Fz s') = 4 \<and> length (current_w s') = 4 \<and> length (current_amps s') = 4"
proof (cases n)
  case 0
  with assms show ?thesis by simp
next
  case (Suc m)
  with assms(1) ticks_Suc_last obtain s1 where "tick f s1 = Some s'" by blast
  from tick_lengths [OF this] show ?thesis by simp
qed

lemma ticks_total:
  assumes "length (current_Fz s) = 4" and "length (current_w s) = 4"
    and "length (inital_Fz s) = 4"
    and "Tire_r (Sim_Tire s) \<noteq> 0" and "Motor_k (Sim_Motor s) \<noteq> 0"
    and "Vehicle_l (Sim_Vehicle s) \<noteq> 0"
  shows "\<exists>s'. ticks f n s = Some s'"
  using assms
proof (induction n arbitrary: s)
  case 0
  then show ?case by simp
next
  case (Suc n)
  from tick_total [OF Suc.prems] obtain s1 where s1: "tick f s = Some s1" by blast
  from tick_lengths [OF s1] tick_config [OF s1] Suc.prems
  have "length (current_Fz s1) = 4" "length (current_w s1) = 4" "length (inital_Fz s1) = 4"
    "Tire_r (Sim_Tire s1) \<noteq> 0" "Motor_k (Sim_Motor s1) \<noteq> 0"
    "Vehicle_l (Sim_Vehicle s1) \<noteq> 0" by simp_all
  from Suc.IH [OF this] s1 show ?case by simp
qed

lemma Sim_init_SomeD:
  assumes "Sim_init V M T B dt runtime = Some s0"
  shows "Vehicle_l V \<noteq> 0"
    and "Sim_Vehicle s0 = V" "Sim_Motor s0 = M" "Sim_Tire s0 = T" "Sim_Battery s0 = B"
    and "Sim_dt s0 = dt" "Sim_runtime s0 = runtime"
    and "inital_Fz s0 = [Vehicle_m V * Vehicle_b V / Vehicle_l V / 2,
                         Vehicle_m V * Vehicle_b V / Vehicle_l V / 2,
                         Vehicle_m V * Vehicle_a V / Vehicle_l V / 2,
                         Vehicle_m V * Vehicle_a V / Vehicle_l V / 2]"
    and "current_Fz s0 = map Fin (inital_Fz s0)"
    and "current_amps s0 = [Fin 0, Fin 0, Fin 0, Fin 0]"
    and "current_w s0 = [Fin 0, Fin 0, Fin 0, Fin 0]"
    and "current_x_dot s0 = Fin 0.0001" "current_x_ddot s0 = Fin 0" "current_x s0 = Fin 0"
    and "Sim_output s0 = []"
  using assms
  by (auto simp: Sim_init_def py_div_def split: if_splits)

lemma Sim_init_total:
  "Vehicle_l V \<noteq> 0 \<Longrightarrow> \<exists>s0. Sim_init V M T B dt runtime = Some s0"
  by (simp add: Sim_init_def py_div_def)

lemma run_total:
  assumes "Sim_init V M T B dt runtime = Some s0"
    and "Tire_r T \<noteq> 0" and "Motor_k M \<noteq> 0"
  shows "\<exists>s. ticks f n s0 = Some s"
proof (rule ticks_total)
  note i = Sim_init_SomeD [OF assms(1)]
  show "length (current_Fz s0) = 4" using i(8,9) by simp
  show "length (current_w s0) = 4" using i(11) by simp
  show "length (inital_Fz s0) = 4" using i(8) by simp
  show "Tire_r (Sim_Tire s0) \<noteq> 0" using i(4) assms(2) by simp
  show "Motor_k (Sim_Motor s0) \<noteq> 0" using i(3) assms(3) by simp
  show "Vehicle_l (Sim_Vehicle s0) \<noteq> 0" using i(1,2) by simp
qed

lemma run_config:
  assumes "Sim_init V M T B dt runtime = Some s0" and "ticks f n s0 = Some s"
  shows "Sim_Vehicle s = V" "Sim_Motor s = M" "Sim_Tire s = T" "Sim_Battery s = B"
    "Sim_dt s = dt" "Sim_runtime s = runtime" "inital_Fz s = inital_Fz s0"
    "length (current_Fz s) = 4" "length (current_w s) = 4" "length (current_amps s) = 4"
    "length (Sim_output s) = n"
proof -
  note i = Sim_init_SomeD [OF assms(1)]
  from ticks_config [OF assms(2)] i
  show "Sim_Vehicle s = V" "Sim_Motor s = M" "Sim_Tire s = T" "Sim_Battery s = B"
    "Sim_dt s = dt" "Sim_runtime s = runtime" "inital_Fz s = inital_Fz s0"
    "length (Sim_output s) = n" by simp_all
  have "length (current_Fz s0) = 4" "length (current_w s0) = 4" "length (current_amps s0) = 4"
    using i(8,9,10,11) by simp_all
  from ticks_lengths [OF assms(2) this]
  show "length (current_Fz s) = 4" "length (current_w s) = 4" "length (current_amps s) = 4"
    by simp_all
qed

section \<open>The normal forces and the currents of a run\<close>

lemma halves_sum:
  "(p / 2 - d / 2) + (p / 2 - d / 2) + (q / 2 + d / 2) + (q / 2 + d / 2) = p + (q::real)"
  by (simp add: field_simps)

lemma axle_loads_sum:
  assumes "a + b \<noteq> 0"
  shows "m * b / (a + b) + m * a / (a + b) = (m::real)"
proof -
  have "m * b / (a + b) + m * a / (a + b) = (m * b + m * a) / (a + b)"
    by (rule add_divide_distrib [symmetric])
  also have "m * b + m * a = m * (a + b)"
    by (simp add: algebra_simps)
  also have "m * (a + b) / (a + b) = m"
    using assms by simp
  finally show ?thesis .
qed

lemma static_split_sum:
  assumes "a + b \<noteq> 0"
  shows "(m * b / (a + b) / 2 - d / 2) + (m * b / (a + b) / 2 - d / 2) +
     (m * a / (a + b) / 2 + d / 2) + (m * a / (a + b) / 2 + d / 2) = (m::real)"
proof -
  have "(m * b / (a + b) / 2 - d / 2) + (m * b / (a + b) / 2 - d / 2) +
     (m * a / (a + b) / 2 + d / 2) + (m * a / (a + b) / 2 + d / 2)
     = m * b / (a + b) + m * a / (a + b)"
    by (rule halves_sum)
  also have "\<dots> = m" using assms by (rule axle_loads_sum)
  finally show ?thesis .
qed

lemma tick_Fz_form:
  assumes "tick f s = Some s'" and "inital_Fz s = [i0, i1, i2, i3]"
  shows "current_Fz s' =
     [Fin i0 - Fin (Vehicle_h (Sim_Vehicle s) / Vehicle_l (Sim_Vehicle s) *
                    Vehicle_m (Sim_Vehicle s)) * current_x_ddot s' / Fin 9.81 / Fin 2,
      Fin i1 - Fin (Vehicle_h (Sim_Vehicle s) / Vehicle_l (Sim_Vehicle s) *
                    Vehicle_m (Sim_Vehicle s)) * current_x_ddot s' / Fin 9.81 / Fin 2,
      Fin i2 + Fin (Vehicle_h (Sim_Vehicle s) / Vehicle_l (Sim_Vehicle s) *
                    Vehicle_m (Sim_Vehicle s)) * current_x_ddot s' / Fin 9.81 / Fin 2,
      Fin i3 + Fin (Vehicle_h (Sim_Vehicle s) / Vehicle_l (Sim_Vehicle s) *
                    Vehicle_m (Sim_Vehicle s)) * current_x_ddot s' / Fin 9.81 / Fin 2]"
proof -
  from tick_SomeD [OF assms(1)] obtain x x_dot x_ddot time amps Fz P slip w where
    a: "accel_FrictionLimited f s = Some (x, x_dot, x_ddot, time, amps, Fz, P, slip, w)"
    and s': "s' = (update_values s x x_dot x_ddot time amps Fz P slip w)
                  \<lparr>Sim_output := Sim_output s @
                     [output_data (update_values s x x_dot x_ddot time amps Fz P slip w)]\<rparr>"
    by blast
  from accel_SomeD(7) [OF a] obtain wtfr where
    wt: "weight_transfer s x_ddot = Some wtfr" and nf: "new_Fz s wtfr 4 = Some Fz" by blast
  from wt have w: "wtfr = Fin (Vehicle_h (Sim_Vehicle s) / Vehicle_l (Sim_Vehicle s) *
                    Vehicle_m (Sim_Vehicle s)) * x_ddot / Fin 9.81"
    by (auto simp: weight_transfer_def py_div_def split: if_splits)
  have "current_Fz s' = Fz" "current_x_ddot s' = x_ddot"
    using s' by (simp_all add: update_values_def)
  with new_Fz_4 [OF nf assms(2)] w show ?thesis by simp
qed

lemma loads_finite:
  "[Fin i0 - Fin c * Fin X / Fin 9.81 / Fin 2, Fin i1 - Fin c * Fin X / Fin 9.81 / Fin 2,
    Fin i2 + Fin c * Fin X / Fin 9.81 / Fin 2, Fin i3 + Fin c * Fin X / Fin 9.81 / Fin 2] =
   [Fin (i0 - c * X / 9.81 / 2), Fin (i1 - c * X / 9.81 / 2),
    Fin (i2 + c * X / 9.81 / 2), Fin (i3 + c * X / 9.81 / 2)]"
  by simp

lemma transfer_nonfinite:
  assumes "\<not> is_Fin x"
  shows "\<not> is_Fin (Fin c * x / Fin 9.81 / Fin 2)"
  using assms by (cases x) simp_all

lemma loads_nonfinite:
  assumes "\<not> is_Fin W"
  shows "(Fin i0 - W) + (Fin i1 - W) + (Fin i2 + W) + (Fin i3 + W) = NaN"
    and "\<not> is_Fin (Fin i0 - W)" "\<not> is_Fin (Fin i1 - W)"
    and "\<not> is_Fin (Fin i2 + W)" "\<not> is_Fin (Fin i3 + W)"
  using assms by (cases W; simp add: minus_fl_def)+

lemma run_Fz_form:
  assumes "Sim_init V M T B dt runtime = Some s0" and "ticks f n s0 = Some s"
  shows "current_Fz s =
     [Fin (Vehicle_m V * Vehicle_b V / Vehicle_l V / 2) -
        Fin (Vehicle_h V / Vehicle_l V * Vehicle_m V) * current_x_ddot s / Fin 9.81 / Fin 2,
      Fin (Vehicle_m V * Vehicle_b V / Vehicle_l V / 2) -
        Fin (Vehicle_h V / Vehicle_l V * Vehicle_m V) * current_x_ddot s / Fin 9.81 / Fin 2,
      Fin (Vehicle_m V * Vehicle_a V / Vehicle_l V / 2) +
        Fin (Vehicle_h V / Vehicle_l V * Vehicle_m V) * current_x_ddot s / Fin 9.81 / Fin 2,
      Fin (Vehicle_m V * Vehicle_a V / Vehicle_l V / 2) +
        Fin (Vehicle_h V / Vehicle_l V * Vehicle_m V) * current_x_ddot s / Fin 9.81 / Fin 2]"
proof (cases n)
  case 0
  with assms(2) have "s = s0" by simp
  then show ?thesis using Sim_init_SomeD(8,9,13) [OF assms(1)] by simp
next
  case (Suc k)
  with assms(2) ticks_Suc_last obtain s1 where
    s1: "ticks f k s0 = Some s1" "tick f s1 = Some s" by blast
  note c = run_config [OF assms(1) s1(1)]
  have i: "inital_Fz s1 = [Vehicle_m V * Vehicle_b V / Vehicle_l V / 2,
                         Vehicle_m V * Vehicle_b V / Vehicle_l V / 2,
                         Vehicle_m V * Vehicle_a V / Vehicle_l V / 2,
                         Vehicle_m V * Vehicle_a V / Vehicle_l V / 2]"
    using c(7) Sim_init_SomeD(8) [OF assms(1)] by simp
  from tick_Fz_form [OF s1(2) i] show ?thesis by (simp only: c(1))
qed

lemma run_Fz_finite:
  assumes "Sim_init (Vehicle_init a b m h cd A) M T B dt runtime = Some s0"
    and "ticks f n s0 = Some s"
    and "current_x_ddot s = Fin X"
  shows "current_Fz s = [Fin (m * b / (a + b) / 2 - h / (a + b) * m * X / 9.81 / 2),
                         Fin (m * b / (a + b) / 2 - h / (a + b) * m * X / 9.81 / 2),
                         Fin (m * a / (a + b) / 2 + h / (a + b) * m * X / 9.81 / 2),
                         Fin (m * a / (a + b) / 2 + h / (a + b) * m * X / 9.81 / 2)]"
    and "current_Fz s ! 0 + current_Fz s ! 1 + current_Fz s ! 2 + current_Fz s ! 3 = Fin m"
proof -
  have l: "a + b \<noteq> 0"
    using Sim_init_SomeD(1) [OF assms(1)] by (simp add: Vehicle_init_def)
  show Fz: "current_Fz s = [Fin (m * b / (a + b) / 2 - h / (a + b) * m * X / 9.81 / 2),
                            Fin (m * b / (a + b) / 2 - h / (a + b) * m * X / 9.81 / 2),
                            Fin (m * a / (a + b) / 2 + h / (a + b) * m * X / 9.81 / 2),
                            Fin (m * a / (a + b) / 2 + h / (a + b) * m * X / 9.81 / 2)]"
    using run_Fz_form [OF assms(1,2)] unfolding assms(3) by (simp add: Vehicle_init_def)
  show "current_Fz s ! 0 + current_Fz s ! 1 + current_Fz s ! 2 + current_Fz s ! 3 = Fin m"
    unfolding Fz using static_split_sum [OF l, of m "h / (a + b) * m * X / 9.81"] by simp
qed

lemma run_Fz_nonfinite:
  assumes "Sim_init V M T B dt runtime = Some s0"
    and "ticks f n s0 = Some s"
    and "\<not> is_Fin (current_x_ddot s)"
  shows "current_Fz s ! 0 + current_Fz s ! 1 + current_Fz s ! 2 + current_Fz s ! 3 = NaN"
    and "i < 4 \<Longrightarrow> \<not> is_Fin (current_Fz s ! i)"
proof -
  define W where "W = Fin (Vehicle_h V / Vehicle_l V * Vehicle_m V) *
        current_x_ddot s / Fin 9.81 / Fin 2"
  have W: "\<not> is_Fin W" unfolding W_def using assms(3) by (rule transfer_nonfinite)
  note N = loads_nonfinite [OF W]
  have Fz: "current_Fz s =
       [Fin (Vehicle_m V * Vehicle_b V / Vehicle_l V / 2) - W,
        Fin (Vehicle_m V * Vehicle_b V / Vehicle_l V / 2) - W,
        Fin (Vehicle_m V * Vehicle_a V / Vehicle_l V / 2) + W,
        Fin (Vehicle_m V * Vehicle_a V / Vehicle_l V / 2) + W]"
    using run_Fz_form [OF assms(1,2)] unfolding W_def .
  show "\<not> is_Fin (current_Fz s ! i)" if "i < 4"
    using nth_4_cases [OF that] N(2-5) unfolding Fz by auto
  show "current_Fz s ! 0 + current_Fz s ! 1 + current_Fz s ! 2 + current_Fz s ! 3 = NaN"
    unfolding Fz using N(1) by simp
qed

lemma Sim_init_amps:
  assumes "Sim_init V M T B dt runtime = Some s0" and "0 \<le> Battery_Burst B" and "i < 4"
  shows "fl_le (current_amps s0 ! i) (Fin (Battery_Burst B))"
  using nth_4_cases [OF assms(3)] Sim_init_SomeD(10) [OF assms(1)] assms(2)
  by (auto simp: fl_le_def)

lemma tick_amps:
  assumes "tick f s = Some s'" and "i < 4"
  shows "current_amps s' ! i = NaN \<or>
         fl_le (current_amps s' ! i) (Fin (Battery_Burst (Sim_Battery s)))"
proof -
  from tick_SomeD [OF assms(1)] obtain x x_dot x_ddot time amps Fz P slip w where
    a: "accel_FrictionLimited f s = Some (x, x_dot, x_ddot, time, amps, Fz, P, slip, w)"
    and s': "s' = (update_values s x x_dot x_ddot time amps Fz P slip w)
                  \<lparr>Sim_output := Sim_output s @
                     [output_data (update_values s x x_dot x_ddot time amps Fz P slip w)]\<rparr>"
    by blast
  have "current_amps s' = amps" using s' by (simp add: update_values_def)
  with accel_amps [OF a assms(2)] show ?thesis by simp
qed

section \<open>The driver\<close>

lemma tick_count_script:
  assumes "Sim_dt s = 0.01" and "Sim_runtime s = 20"
  shows "tick_count s = Some 2000"
proof -
  have "py_div (Sim_runtime s) (Sim_dt s) = Some 2000"
    unfolding assms by (simp add: py_div_def)
  then show ?thesis by (simp add: tick_count_def)
qed

lemma frc_sim_Some: "\<exists>s0. frc_sim = Some s0"
  by (simp add: frc_sim_def Sim_init_def frc_vehicle_def Vehicle_init_def py_div_def)

lemma frc_tire_r: "Tire_r frc_tire \<noteq> 0"
  by (simp add: frc_tire_def Tire_init_def)

lemma frc_motor_k: "Motor_k frc_motor \<noteq> 0"
  by (simp add: frc_motor_def)

lemma Motor_init_frc: "Motor_init 2000 0.8 = Some frc_motor"
  by (simp add: Motor_init_def py_div_def frc_motor_def)

text \<open>
  Claim C8: with \<open>dt = 0.01\<close> and \<open>runtime = 20\<close> the loop of the driver has
  \<open>2000\<close> passes: the run is the run of 2000 ticks and of no more, and a run that
  completes has appended 2000 rows to the output, one per tick. (A tick that raises ends
  the run early.) The run of the script's configuration completes with 2000 rows.
\<close>

theorem call_runs_2000_ticks:
  assumes "Sim_dt s = 0.01" and "Sim_runtime s = 20"
  shows "tick_count s = Some 2000 \<and> call f s = ticks f 2000 s \<and>
         (\<forall>s'. call f s = Some s' \<longrightarrow>
            length (Sim_output s') = length (Sim_output s) + 2000)"
proof -
  have n: "tick_count s = Some 2000" using assms by (rule tick_count_script)
  then have c: "call f s = ticks f 2000 s" by (simp add: call_def)
  have "length (Sim_output s') = length (Sim_output s) + 2000" if "call f s = Some s'" for s'
    using that c ticks_config [of f 2000 s s'] by simp
  with n c show ?thesis by blast
qed

theorem call_runs_2000_ticks_witness:
  "\<exists>s0 s'. frc_sim = Some s0 \<and> Sim_dt s0 = 0.01 \<and> Sim_runtime s0 = 20 \<and>
     tick_count s0 = Some 2000 \<and>
     call (fsolve_guess True) s0 = Some s' \<and> length (Sim_output s') = 2000"
proof -
  from frc_sim_Some obtain s0 where s0: "frc_sim = Some s0" by blast
  then have init: "Sim_init frc_vehicle frc_motor frc_tire frc_battery 0.01 20 = Some s0"
    by (simp add: frc_sim_def)
  note i = Sim_init_SomeD [OF init]
  from run_total [OF init frc_tire_r frc_motor_k, of "fsolve_guess True" 2000] obtain s' where
    s': "ticks (fsolve_guess True) 2000 s0 = Some s'" by blast
  from call_runs_2000_ticks [OF i(6,7), of "fsolve_guess True"] s' i(15)
  have "tick_count s0 = Some 2000 \<and> call (fsolve_guess True) s0 = Some s' \<and>
        length (Sim_output s') = 2000"
    by simp
  with s0 i(6,7) show ?thesis by blast
qed

section \<open>The first tick of the script's configuration\<close>

text \<open>
  Bounds of the friction coefficient of the script's tire: a lower bound at the slip 0.11,
  from \<open>arctan (sqrt 3) = pi / 3\<close>, \<open>arctan (1 / sqrt 3) = pi / 6\<close>, \<open>2 \<le> pi\<close> and
  \<open>x - x ^ 3 / 6 \<le> sin x\<close>, and an upper bound at every slip, from \<open>\<bar>sin x\<bar> \<le> \<bar>x\<bar>\<close>
  and \<open>pi < 4\<close>. With them the current that the peak traction asks for at the first
  tick is between 12 A and 74 A for every wheel of the script's vehicle.
\<close>

lemma sin_lower:
  assumes "0 \<le> x"
  shows "x - x ^ 3 / 6 \<le> sin (x::real)"
proof -
  have "(\<Sum>m<3. sin_coeff m * x ^ m) = x"
    by (simp add: eval_nat_numeral lessThan_Suc sin_coeff_def)
  with Maclaurin_sin_bound [of x 3] have "\<bar>sin x - x\<bar> \<le> inverse (fact 3) * \<bar>x\<bar> ^ 3"
    by simp
  moreover have "inverse (fact 3) * \<bar>x\<bar> ^ 3 = x ^ 3 / 6"
    using assms by (simp add: eval_nat_numeral)
  ultimately show ?thesis by linarith
qed

lemma arctan_sqrt3: "arctan (sqrt 3) = pi / 3"
proof (rule arctan_unique)
  show "- (pi / 2) < pi / 3" using pi_gt_zero by linarith
  show "pi / 3 < pi / 2" using pi_gt_zero by linarith
  show "tan (pi / 3) = sqrt 3" by (rule tan_60)
qed

lemma arctan_inv_sqrt3: "arctan (1 / sqrt 3) = pi / 6"
proof (rule arctan_unique)
  show "- (pi / 2) < pi / 6" using pi_gt_zero by linarith
  show "pi / 6 < pi / 2" using pi_gt_zero by linarith
  show "tan (pi / 6) = 1 / sqrt 3" by (rule tan_30)
qed

lemma frc_mu_11: "23 / 20 \<le> spec_mu frc_tire (11 / 100)"
proof -
  define bs :: real where "bs = 16.6675 * (11 / 100)"
  define y where "y = bs - 1.0301 * (bs - arctan bs)"
  define x where "x = 0.05343 * arctan y"
  have "sqrt 3 \<le> bs"
    unfolding bs_def by (rule real_le_lsqrt) (simp_all add: power2_eq_square)
  then have "arctan (sqrt 3) \<le> arctan bs" by (simp add: arctan_le_iff)
  then have "pi / 3 \<le> arctan bs" by (simp add: arctan_sqrt3)
  with pi_ge_two have a1: "2 / 3 \<le> arctan bs" by linarith
  have "0.63 \<le> 16.6675 * (11 / 100) - 1.0301 * (16.6675 * (11 / 100) - t)"
    if "2 / 3 \<le> t" for t :: real
    using that by (simp add: algebra_simps)
  from this [OF a1] have y_lb: "0.63 \<le> y" unfolding y_def bs_def .
  have "(16 / 10) \<le> sqrt 3"
    by (rule real_le_rsqrt) (simp add: power2_eq_square)
  then have "1 / sqrt 3 \<le> 1 / (16 / 10)"
    by (intro divide_left_mono) simp_all
  also have "\<dots> \<le> 0.63" by simp
  finally have "1 / sqrt 3 \<le> y" using y_lb by simp
  then have "arctan (1 / sqrt 3) \<le> arctan y" by (simp only: arctan_le_iff)
  then have "pi / 6 \<le> arctan y" by (simp only: arctan_inv_sqrt3)
  with pi_ge_two have a2: "1 / 3 \<le> arctan y" by linarith
  have "arctan y < pi / 2" by (rule arctan_ubound)
  with pi_less_4 have a3: "arctan y \<le> 2" by linarith
  have x_lb: "0.0178 \<le> x" unfolding x_def using a2 by simp
  have x_ub: "x \<le> 0.107" unfolding x_def using a3 by simp
  have x0: "0 \<le> x" using x_lb by simp
  have "x ^ 3 = x * (x * x)" by (simp add: power3_eq_cube mult.assoc)
  also have "x * x \<le> 0.107 * 0.107"
    using x0 x_ub by (intro mult_mono) simp_all
  then have "x * (x * x) \<le> x * (0.107 * 0.107)"
    using x0 by (rule mult_left_mono)
  finally have "x ^ 3 \<le> x * (0.107 * 0.107)" .
  then have "x - x * (0.107 * 0.107) / 6 \<le> x - x ^ 3 / 6" by simp
  also have "\<dots> \<le> sin x" using x0 by (rule sin_lower)
  finally have "x - x * (0.107 * 0.107) / 6 \<le> sin x" .
  with x_lb have s: "0.0177 \<le> sin x" by simp
  have "spec_mu frc_tire (11 / 100) = 65.1759 * sin x"
    by (simp add: spec_mu_def frc_tire_def Tire_init_def x_def y_def bs_def)
  with s show ?thesis by simp
qed

lemma frc_mu_le: "spec_mu frc_tire x \<le> 7"
proof -
  define y where "y = 16.6675 * x - 1.0301 * (16.6675 * x - arctan (16.6675 * x))"
  define z where "z = 0.05343 * arctan y"
  have "- (pi / 2) < arctan y" "arctan y < pi / 2"
    by (rule arctan_lbound, rule arctan_ubound)
  with pi_less_4 have "\<bar>arctan y\<bar> \<le> 2" by linarith
  then have "\<bar>z\<bar> \<le> 0.10686" unfolding z_def by (simp add: abs_mult)
  moreover have "\<bar>sin z\<bar> \<le> \<bar>z\<bar>" by (rule abs_sin_x_le_abs_x)
  ultimately have "sin z \<le> 0.10686" by linarith
  then have "65.1759 * sin z \<le> 7" by simp
  moreover have "spec_mu frc_tire x = 65.1759 * sin z"
    by (simp add: spec_mu_def frc_tire_def Tire_init_def z_def y_def)
  ultimately show ?thesis by simp
qed

lemma amps_arith:
  fixes wv P :: real
  assumes "0 \<le> wv" and "wv \<le> 0.3125" and "1.4375 \<le> P" and "P \<le> 8.75"
  shows "12 \<le> (0.00001667 * (wv - 0) + 0.032 * P) / (1 / (2000 * 0.10472)) * (1 / 0.8)"
    and "(0.00001667 * (wv - 0) + 0.032 * P) / (1 / (2000 * 0.10472)) * (1 / 0.8) \<le> 74"
proof -
  define T where "T = 0.00001667 * (wv - 0) + 0.032 * P"
  have a: "0 \<le> 0.00001667 * (wv - 0)" using assms(1) by simp
  have b: "0.046 \<le> 0.032 * P" using assms(3) by simp
  from a b have T_lb: "0.046 \<le> T" unfolding T_def by (rule add_increasing)
  have c: "0.00001667 * (wv - 0) \<le> 0.00001" using assms(2) by simp
  have d: "0.032 * P \<le> 0.28" using assms(4) by simp
  from c d have T_ub: "T \<le> 0.00001 + 0.28" unfolding T_def by (rule add_mono)
  have e: "T / (1 / (2000 * 0.10472)) * (1 / 0.8) = T * 261.8" by simp
  show "12 \<le> (0.00001667 * (wv - 0) + 0.032 * P) / (1 / (2000 * 0.10472)) * (1 / 0.8)"
    using T_lb unfolding T_def [symmetric] e by simp
  show "(0.00001667 * (wv - 0) + 0.032 * P) / (1 / (2000 * 0.10472)) * (1 / 0.8) \<le> 74"
    using T_ub unfolding T_def [symmetric] e by simp
qed

lemma speed_arith:
  assumes "j < (100::nat)"
  shows "0.032 * (1 - real j / 100) \<noteq> 0"
    and "0 \<le> 0.0001 / (0.032 * (1 - real j / 100))"
    and "0.0001 / (0.032 * (1 - real j / 100)) \<le> 0.3125"
proof -
  have "real j \<le> 99" using assms by simp
  then have l: "1 / 100 \<le> 1 - real j / 100" by simp
  then have p: "0 < 0.032 * (1 - real j / 100)" by simp
  then show "0.032 * (1 - real j / 100) \<noteq> 0" by simp
  from p show "0 \<le> 0.0001 / (0.032 * (1 - real j / 100))" by simp
  have "0.0001 \<le> 0.3125 * (0.032 * (1 - real j / 100))" using l by simp
  with p show "0.0001 / (0.032 * (1 - real j / 100)) \<le> 0.3125"
    by (simp only: pos_divide_le_eq)
qed

lemma frc_fields:
  "Tire_r frc_tire = 0.032" "Tire_J frc_tire = 0.00001667"
  "Motor_Kt frc_motor = 1 / (2000 * 0.10472)" "Motor_k frc_motor = 0.8"
  by (simp_all add: frc_tire_def Tire_init_def frc_motor_def)

lemma frc_init:
  assumes "Sim_init frc_vehicle frc_motor frc_tire B dt rt = Some s0"
  shows "current_Fz s0 = [Fin (5 / 4), Fin (5 / 4), Fin (5 / 4), Fin (5 / 4)]"
    and "inital_Fz s0 = [5 / 4, 5 / 4, 5 / 4, 5 / 4]"
  using Sim_init_SomeD(8,9) [OF assms] by (simp_all add: frc_vehicle_def Vehicle_init_def)

lemma frc_required:
  assumes "Sim_init frc_vehicle frc_motor frc_tire B dt rt = Some s0" and "n < 4"
  shows "\<exists>P T w a sl. required s0 n = Some (Fin P, Fin T, Fin w, Fin a, Fin sl) \<and>
           12 \<le> a \<and> a \<le> 74"
proof -
  note d = Sim_init_SomeD [OF assms(1)]
  note i = frc_init [OF assms(1)]
  have Fzn: "current_Fz s0 ! n = Fin (5 / 4)"
    using nth_4_cases [OF assms(2)] i(1) by auto
  have wn: "current_w s0 ! n = Fin 0"
    using nth_4_cases [OF assms(2)] d(11) by auto
  have ln: "n < length (current_Fz s0)" "n < length (current_w s0)"
    using assms(2) i(1) d(11) by simp_all
  from peak_nonzero [of "5 / 4" frc_tire] obtain j where
    j: "j < 100"
    "peak frc_tire (Fin (5 / 4)) =
       Some (Fin (spec_mu frc_tire (real j / 100) * (5 / 4)), Fin (real j / 100))"
    "\<forall>i<100. spec_mu frc_tire (real i / 100) * (5 / 4) \<le>
               spec_mu frc_tire (real j / 100) * (5 / 4)"
    by auto
  define P where "P = spec_mu frc_tire (real j / 100) * (5 / 4)"
  define wv where "wv = 0.0001 / (0.032 * (1 - real j / 100))"
  define T where "T = 0.00001667 * (wv - 0) + 0.032 * P"
  define a where "a = T / (1 / (2000 * 0.10472)) * (1 / 0.8)"
  have pk: "peak (Sim_Tire s0) (current_Fz s0 ! n) = Some (Fin P, Fin (real j / 100))"
    using j(2) by (simp only: d(4) Fzn P_def)
  have "(11::nat) < 100" by simp
  with j(3) have "spec_mu frc_tire (real 11 / 100) * (5 / 4) \<le> P"
    unfolding P_def by blast
  with frc_mu_11 have P_lb: "1.4375 \<le> P" by simp
  have P_ub: "P \<le> 8.75" unfolding P_def using frc_mu_le [of "real j / 100"] by simp
  note sp = speed_arith [OF j(1)]
  have w_eq: "Fin 0.0001 / (Fin 0.032 * (Fin 1 - Fin (real j / 100))) = Fin wv"
    unfolding wv_def using sp(1) by simp
  have T_eq: "Fin 0.00001667 * (Fin wv - Fin 0) + Fin 0.032 * Fin P = Fin T"
    unfolding T_def by simp
  have a_eq: "Fin T / Fin (1 / (2000 * 0.10472)) * Fin (1 / 0.8) = Fin a"
    unfolding a_def by simp
  have r: "Tire_r (Sim_Tire s0) \<noteq> 0" "Motor_k (Sim_Motor s0) \<noteq> 0"
    by (simp_all add: d(3,4) frc_fields)
  have req: "required s0 n = Some (Fin P, Fin T, Fin wv, Fin a, Fin (real j / 100))"
    by (simp only: required_eq [OF ln r pk] d(3,4,12) frc_fields wn w_eq T_eq a_eq)
  moreover have sp': "0 \<le> wv" "wv \<le> 0.3125"
    unfolding wv_def by (rule sp(2), rule sp(3))
  have "12 \<le> a" "a \<le> 74"
    unfolding a_def T_def
    by (rule amps_arith(1) [OF sp' P_lb P_ub], rule amps_arith(2) [OF sp' P_lb P_ub])
  with req show ?thesis by blast
qed

lemma tick_output:
  assumes "tick f s = Some s'"
  shows "Sim_output s' = Sim_output s @ [output_data s']"
  using tick_SomeD [OF assms] by (auto simp: output_data_def update_values_def)

lemma tick_of_wheels:
  assumes "length (current_Fz s) = 4" and "length (inital_Fz s) = 4"
    and "Vehicle_l (Sim_Vehicle s) \<noteq> 0"
    and "wheel f s 0 = Some (P0, T0, w0, a0, sl0)"
    and "wheel f s 1 = Some (P1, T1, w1, a1, sl1)"
    and "wheel f s 2 = Some (P2, T2, w2, a2, sl2)"
    and "wheel f s 3 = Some (P3, T3, w3, a3, sl3)"
  shows "\<exists>s'. tick f s = Some s' \<and>
           current_P s' = [P0, P1, P2, P3] \<and> current_w s' = [w0, w1, w2, w3] \<and>
           current_amps s' = [a0, a1, a2, a3] \<and> current_slip s' = [sl0, sl1, sl2, sl3] \<and>
           current_x_ddot s' =
             (Fin 0 + P0 + P1 + P2 + P3 - F_aero s) / Fin (Vehicle_m (Sim_Vehicle s))"
proof -
  have ws: "those (map (wheel f s) [0..<4]) =
              Some [(P0, T0, w0, a0, sl0), (P1, T1, w1, a1, sl1), (P2, T2, w2, a2, sl2),
                    (P3, T3, w3, a3, sl3)]"
    using assms(4-7) by (simp add: upt_4)
  let ?ws = "[(P0, T0, w0, a0, sl0), (P1, T1, w1, a1, sl1), (P2, T2, w2, a2, sl2),
                    (P3, T3, w3, a3, sl3)]"
  let ?a = "(py_sum (map (\<lambda>(P, T, w, amps, slip). P) ?ws) - F_aero s) /
            Fin (Vehicle_m (Sim_Vehicle s))"
  from assms(3) obtain wtfr where wt: "weight_transfer s ?a = Some wtfr"
    by (simp add: weight_transfer_def py_div_def)
  from assms(2) obtain i0 i1 i2 i3 where "inital_Fz s = [i0, i1, i2, i3]"
    by (auto simp: length_Suc_conv eval_nat_numeral)
  from new_Fz_total [OF this, of wtfr] obtain Fz where Fz: "new_Fz s wtfr 4 = Some Fz" by blast
  from tick_of_accel [OF accel_of_wheels [OF assms(1) ws wt Fz]]
  show ?thesis by (simp add: update_values_def py_sum_def)
qed

lemma frc_first_tick:
  assumes "frc_sim = Some s0"
  shows "\<exists>s1 X a0 a1 a2 a3. tick f s0 = Some s1 \<and> current_x_ddot s1 = Fin X \<and>
           current_amps s1 = [Fin a0, Fin a1, Fin a2, Fin a3] \<and>
           a0 \<le> 74 \<and> a1 \<le> 74 \<and> a2 \<le> 74 \<and> a3 \<le> 74"
proof -
  have init: "Sim_init frc_vehicle frc_motor frc_tire frc_battery 0.01 20 = Some s0"
    using assms by (simp add: frc_sim_def)
  note d = Sim_init_SomeD [OF init]
  note i = frc_init [OF init]
  have B: "Battery_Burst (Sim_Battery s0) = 97.5"
    by (simp add: d(5) frc_battery_def Battery_init_def)
  have wh: "\<exists>P T w a sl. wheel f s0 n = Some (Fin P, Fin T, Fin w, Fin a, Fin sl) \<and> a \<le> 74"
    if "n < 4" for n
  proof -
    from frc_required [OF init that] obtain P T w a sl where
      r: "required s0 n = Some (Fin P, Fin T, Fin w, Fin a, Fin sl)" and a: "a \<le> 74" by blast
    have "\<not> fl_gt (Fin a) (Fin (Battery_Burst (Sim_Battery s0)))"
      using a by (simp add: B)
    from wheel_not_clamped [OF r this] a show ?thesis by blast
  qed
  from wh [of 0] obtain P0 T0 w0 a0 sl0 where
    w0: "wheel f s0 0 = Some (Fin P0, Fin T0, Fin w0, Fin a0, Fin sl0)" "a0 \<le> 74" by auto
  from wh [of 1] obtain P1 T1 w1 a1 sl1 where
    w1: "wheel f s0 1 = Some (Fin P1, Fin T1, Fin w1, Fin a1, Fin sl1)" "a1 \<le> 74" by auto
  from wh [of 2] obtain P2 T2 w2 a2 sl2 where
    w2: "wheel f s0 2 = Some (Fin P2, Fin T2, Fin w2, Fin a2, Fin sl2)" "a2 \<le> 74" by auto
  from wh [of 3] obtain P3 T3 w3 a3 sl3 where
    w3: "wheel f s0 3 = Some (Fin P3, Fin T3, Fin w3, Fin a3, Fin sl3)" "a3 \<le> 74" by auto
  have l4: "length (current_Fz s0) = 4" "length (inital_Fz s0) = 4" using i by simp_all
  have l: "Vehicle_l (Sim_Vehicle s0) \<noteq> 0" using d(1,2) by simp
  from tick_of_wheels [OF l4 l w0(1) w1(1) w2(1) w3(1)] obtain s1 where
    s1: "tick f s0 = Some s1" "current_amps s1 = [Fin a0, Fin a1, Fin a2, Fin a3]"
    "current_x_ddot s1 =
       (Fin 0 + Fin P0 + Fin P1 + Fin P2 + Fin P3 - F_aero s0) / Fin (Vehicle_m (Sim_Vehicle s0))"
    by blast
  define Fa where "Fa = Vehicle_cd (Sim_Vehicle s0) * 1.225 * (0.0001 * 0.0001) *
      Vehicle_A (Sim_Vehicle s0) / 2"
  have Fa: "F_aero s0 = Fin Fa" by (simp add: F_aero_def d(12) Fa_def)
  have m: "Vehicle_m (Sim_Vehicle s0) = 5"
    by (simp add: d(2) frc_vehicle_def Vehicle_init_def)
  have "current_x_ddot s1 = Fin ((0 + P0 + P1 + P2 + P3 - Fa) / 5)"
    unfolding s1(3) Fa m by simp
  with s1(1,2) w0(2) w1(2) w2(2) w3(2) show ?thesis by blast
qed

section \<open>The current limit and the root finder\<close>

lemma wheel_flag: "wheel (\<lambda>g x0. (fst (f g x0), c)) = wheel f"
  by (intro ext) (simp add: wheel_def Let_def cong: if_cong)

lemma accel_flag:
  "accel_FrictionLimited (\<lambda>g x0. (fst (f g x0), c)) s = accel_FrictionLimited f s"
  by (simp add: accel_FrictionLimited_def wheel_flag)

lemma tick_flag: "tick (\<lambda>g x0. (fst (f g x0), c)) s = tick f s"
  by (simp add: tick_def accel_flag)

lemma weak_sim_Some: "\<exists>s0. weak_sim = Some s0"
  by (simp add: weak_sim_def Sim_init_def frc_vehicle_def Vehicle_init_def py_div_def)

lemma weak_Burst: "Battery_Burst weak_battery = 9.75"
  by (simp add: weak_battery_def Battery_init_def)

lemma weak_required:
  assumes "weak_sim = Some s0" and "n < 4"
  shows "\<exists>P T w a sl. required s0 n = Some (Fin P, Fin T, Fin w, Fin a, Fin sl) \<and>
           Battery_Burst weak_battery < a"
proof -
  have init: "Sim_init frc_vehicle frc_motor frc_tire weak_battery 0.01 20 = Some s0"
    using assms(1) by (simp add: weak_sim_def)
  from frc_required [OF init assms(2)] obtain P T w a sl where
    "required s0 n = Some (Fin P, Fin T, Fin w, Fin a, Fin sl)" "12 \<le> a" by blast
  moreover from this have "Battery_Burst weak_battery < a" by (simp add: weak_Burst)
  ultimately show ?thesis by blast
qed

lemma weak_wheel:
  assumes "weak_sim = Some s0" and "n < 4"
  shows "wheel f s0 n =
     Some (lonFriction frc_tire
             (Fin 1 - Fin 0.0001 /
                (Fin 0.032 *
                 fst (f (\<lambda>w. w_fun s0 w (Fin (9.75 * (1 / (2000 * 0.10472)) * (1 / 0.8))) n)
                       (Fin 1))))
             (Fin (5 / 4)) * Fin (5 / 4),
           Fin (9.75 * (1 / (2000 * 0.10472)) * (1 / 0.8)),
           fst (f (\<lambda>w. w_fun s0 w (Fin (9.75 * (1 / (2000 * 0.10472)) * (1 / 0.8))) n) (Fin 1)),
           Fin 9.75,
           Fin 1 - Fin 0.0001 /
                (Fin 0.032 *
                 fst (f (\<lambda>w. w_fun s0 w (Fin (9.75 * (1 / (2000 * 0.10472)) * (1 / 0.8))) n)
                       (Fin 1))))"
proof -
  have init: "Sim_init frc_vehicle frc_motor frc_tire weak_battery 0.01 20 = Some s0"
    using assms(1) by (simp add: weak_sim_def)
  note d = Sim_init_SomeD [OF init]
  note i = frc_init [OF init]
  have Fzn: "current_Fz s0 ! n = Fin (5 / 4)"
    using nth_4_cases [OF assms(2)] i(1) by auto
  from weak_required [OF assms] obtain P T w a sl where
    r: "required s0 n = Some (Fin P, Fin T, Fin w, Fin a, Fin sl)"
    and a: "Battery_Burst weak_battery < a" by blast
  have gt: "fl_gt (Fin a) (Fin (Battery_Burst (Sim_Battery s0)))"
    using a by (simp add: d(5))
  show ?thesis
    by (simp only: wheel_clamped [OF r gt] d(3,4,5,12) frc_fields weak_Burst Fzn)
qed

lemma weak_wheel_guess:
  assumes "weak_sim = Some s0" and "n < 4"
  shows "wheel (fsolve_guess c) s0 n =
     Some (Fin (spec_mu frc_tire (1 - 0.0001 / 0.032) * (5 / 4)), Fin (4875 / 83776), Fin 1,
           Fin 9.75, Fin (1 - 0.0001 / 0.032))"
  unfolding weak_wheel [OF assms]
  by (simp add: fsolve_guess_def lonFriction_nonzero)

lemma weak_first_tick:
  assumes "weak_sim = Some s0"
  shows "\<exists>s1. tick (fsolve_guess c) s0 = Some s1 \<and>
           current_w s1 = [Fin 1, Fin 1, Fin 1, Fin 1] \<and>
           current_amps s1 = [Fin 9.75, Fin 9.75, Fin 9.75, Fin 9.75]"
proof -
  have init: "Sim_init frc_vehicle frc_motor frc_tire weak_battery 0.01 20 = Some s0"
    using assms(1) by (simp add: weak_sim_def)
  note d = Sim_init_SomeD [OF init]
  note i = frc_init [OF init]
  have l4: "length (current_Fz s0) = 4" "length (inital_Fz s0) = 4" using i by simp_all
  have l: "Vehicle_l (Sim_Vehicle s0) \<noteq> 0" using d(1,2) by simp
  from tick_of_wheels [OF l4 l weak_wheel_guess [OF assms, of 0 c]
      weak_wheel_guess [OF assms, of 1 c] weak_wheel_guess [OF assms, of 2 c]
      weak_wheel_guess [OF assms, of 3 c]]
  show ?thesis by auto
qed

text \<open>
  Claim C6, as the specification states it: a root-find that does not meet its tolerance
  aborts the tick with an error of its own. It does not: with the battery
  \<^verbatim>\<open>Battery(1, 5, 3.6, 8)\<close> every wheel of the script's vehicle asks for more than the
  burst current at the first tick, the root finder is called and reports no convergence,
  and the tick completes and commits the last iterate, here the initial guess 1, as the
  wheel speed of every wheel, with one row appended to the output.
\<close>

theorem unconverged_tick_completes:
  "map_option current_w (weak_sim \<bind> tick (fsolve_guess False)) =
     Some [Fin 1, Fin 1, Fin 1, Fin 1] \<and>
   map_option current_amps (weak_sim \<bind> tick (fsolve_guess False)) =
     Some [Fin 9.75, Fin 9.75, Fin 9.75, Fin 9.75] \<and>
   map_option (length \<circ> Sim_output) (weak_sim \<bind> tick (fsolve_guess False)) = Some 1"
proof -
  from weak_sim_Some obtain s0 where s0: "weak_sim = Some s0" by blast
  then have init: "Sim_init frc_vehicle frc_motor frc_tire weak_battery 0.01 20 = Some s0"
    by (simp add: weak_sim_def)
  from weak_first_tick [OF s0, of False] obtain s1 where
    s1: "tick (fsolve_guess False) s0 = Some s1"
    "current_w s1 = [Fin 1, Fin 1, Fin 1, Fin 1]"
    "current_amps s1 = [Fin 9.75, Fin 9.75, Fin 9.75, Fin 9.75]" by blast
  have "length (Sim_output s1) = 1"
    using tick_config(8) [OF s1(1)] Sim_init_SomeD(15) [OF init] by simp
  with s1 show ?thesis by (simp add: s0)
qed

text \<open>
  Claim C6, amended: the simulation has no convergence error. In every state of every
  run, when the current that a wheel asks for is greater than the burst current and the
  root finder called in line 193 does not converge, the tick completes all the same: the
  value \<open>w'\<close> that the root finder returns, whatever it is, is committed as the speed of
  that wheel, the current of the wheel is the burst current, the slip follows from \<open>w'\<close>
  (line 194), one row with the new state is appended to the output and the run goes on;
  the tick is the one that a converged solve returning the same value gives. The example
  is a root finder that returns 0 unconverged: the slip of the wheel becomes minus
  infinity and the tick is committed.
\<close>

theorem unconverged_iterate_committed:
  assumes "Sim_init V M T B dt runtime = Some s0"
    and "ticks f n s0 = Some s"
    and "i < 4"
    and "required s i = Some (P, Tq, w, amps, slip)"
    and "fl_gt amps (Fin (Battery_Burst B))"
    and "f (\<lambda>w. w_fun s w (Fin (Battery_Burst B * Motor_Kt M * (1 / Motor_k M))) i) (Fin 1) =
           (w', False)"
  shows "\<exists>s'. tick f s = Some s' \<and> ticks f (Suc n) s0 = Some s' \<and>
           current_w s' ! i = w' \<and>
           current_amps s' ! i = Fin (Battery_Burst B) \<and>
           current_slip s' ! i = Fin 1 - current_x_dot s / (Fin (Tire_r T) * w') \<and>
           Sim_output s' = Sim_output s @ [output_data s'] \<and>
           tick (\<lambda>g x0. (fst (f g x0), True)) s = Some s'"
proof -
  note c = run_config [OF assms(1,2)]
  note d = Sim_init_SomeD [OF assms(1)]
  from required_SomeD [OF assms(4)] have rk: "Tire_r (Sim_Tire s) \<noteq> 0"
    "Motor_k (Sim_Motor s) \<noteq> 0" by simp_all
  have l: "Vehicle_l (Sim_Vehicle s) \<noteq> 0" using c(1) d(1) by simp
  have i4: "length (inital_Fz s) = 4" using c(7) d(8) by simp
  from tick_total [OF c(8) c(9) i4 rk l, of f] obtain s' where s': "tick f s = Some s'" by blast
  from tick_SomeD [OF s'] obtain x x_dot x_ddot time ampsl Fz Pl slipl wl where
    a: "accel_FrictionLimited f s = Some (x, x_dot, x_ddot, time, ampsl, Fz, Pl, slipl, wl)"
    and e: "s' = (update_values s x x_dot x_ddot time ampsl Fz Pl slipl wl)
                  \<lparr>Sim_output := Sim_output s @
                     [output_data (update_values s x x_dot x_ddot time ampsl Fz Pl slipl wl)]\<rparr>"
    by blast
  from accel_wheel [OF a assms(3)] obtain T' where
    wh: "wheel f s i = Some (Pl ! i, T', wl ! i, ampsl ! i, slipl ! i)" by blast
  have gt: "fl_gt amps (Fin (Battery_Burst (Sim_Battery s)))" using assms(5) c(4) by simp
  have u: "f (\<lambda>w. w_fun s w (Fin (Battery_Burst (Sim_Battery s) * Motor_Kt (Sim_Motor s) *
                           (1 / Motor_k (Sim_Motor s)))) i) (Fin 1) = (w', False)"
    using assms(6) by (simp only: c(2) c(4))
  note wc = wheel_clamped [OF assms(4) gt, of f, unfolded u]
  from wc wh
  have "wl ! i = w'" "ampsl ! i = Fin (Battery_Burst B)"
    "slipl ! i = Fin 1 - current_x_dot s / (Fin (Tire_r T) * w')"
    by (simp_all add: c(3) c(4))
  moreover have "current_w s' = wl" "current_amps s' = ampsl" "current_slip s' = slipl"
    using e by (simp_all add: update_values_def)
  ultimately have "current_w s' ! i = w'" "current_amps s' ! i = Fin (Battery_Burst B)"
    "current_slip s' ! i = Fin 1 - current_x_dot s / (Fin (Tire_r T) * w')" by simp_all
  moreover have "ticks f (Suc n) s0 = Some s'" using assms(2) s' by (rule ticks_snoc)
  moreover have "Sim_output s' = Sim_output s @ [output_data s']" using s' by (rule tick_output)
  moreover have "tick (\<lambda>g x0. (fst (f g x0), True)) s = Some s'" using s' by (simp add: tick_flag)
  ultimately show ?thesis using s' by blast
qed

theorem unconverged_iterate_committed_witness:
  "\<exists>s0 s' P Tq w a sl.
     weak_sim = Some s0 \<and> ticks (fsolve_const (Fin 0) False) 0 s0 = Some s0 \<and> (0::nat) < 4 \<and>
     required s0 0 = Some (P, Tq, w, Fin a, sl) \<and>
     fl_gt (Fin a) (Fin (Battery_Burst weak_battery)) \<and>
     fsolve_const (Fin 0) False
       (\<lambda>w. w_fun s0 w
          (Fin (Battery_Burst weak_battery * Motor_Kt frc_motor * (1 / Motor_k frc_motor))) 0)
       (Fin 1) = (Fin 0, False) \<and>
     tick (fsolve_const (Fin 0) False) s0 = Some s' \<and>
     current_w s' ! 0 = Fin 0 \<and> current_amps s' ! 0 = Fin 9.75 \<and>
     current_slip s' ! 0 = NInf \<and> Sim_output s' = [output_data s']"
proof -
  from weak_sim_Some obtain s0 where s0: "weak_sim = Some s0" by blast
  then have init: "Sim_init frc_vehicle frc_motor frc_tire weak_battery 0.01 20 = Some s0"
    by (simp add: weak_sim_def)
  note d = Sim_init_SomeD [OF init]
  from weak_required [OF s0, of 0] obtain P T w a sl where
    r: "required s0 0 = Some (Fin P, Fin T, Fin w, Fin a, Fin sl)"
    and a: "Battery_Burst weak_battery < a" by auto
  have gt: "fl_gt (Fin a) (Fin (Battery_Burst weak_battery))" using a by simp
  have t0: "ticks (fsolve_const (Fin 0) False) 0 s0 = Some s0" by simp
  have u: "fsolve_const (Fin 0) False
       (\<lambda>w. w_fun s0 w
          (Fin (Battery_Burst weak_battery * Motor_Kt frc_motor * (1 / Motor_k frc_motor))) 0)
       (Fin 1) = (Fin 0, False)"
    by (simp add: fsolve_const_def)
  have four: "(0::nat) < 4" by simp
  from unconverged_iterate_committed [OF init t0 four r gt u] obtain s' where
    s': "tick (fsolve_const (Fin 0) False) s0 = Some s'"
    "current_w s' ! 0 = Fin 0" "current_amps s' ! 0 = Fin (Battery_Burst weak_battery)"
    "current_slip s' ! 0 = Fin 1 - current_x_dot s0 / (Fin (Tire_r frc_tire) * Fin 0)"
    "Sim_output s' = Sim_output s0 @ [output_data s']" by blast
  have "current_slip s' ! 0 = NInf"
    unfolding s'(4) d(12) by (simp add: minus_fl_def)
  moreover have "current_amps s' ! 0 = Fin 9.75" using s'(3) by (simp add: weak_Burst)
  moreover have "Sim_output s' = [output_data s']" using s'(5) d(15) by simp
  ultimately show ?thesis using s0 t0 four r gt u s'(1,2) by blast
qed

text \<open>
  Claim C3, on the code: for the motor of the script (\<open>k = 0.8\<close>, \<open>Kt = 1/209.44\<close>), the
  battery \<^verbatim>\<open>Battery(1, 5, 3.6, 8)\<close> (\<open>Burst = 9.75\<close>) and the first tick, where the
  wheel asks for more than the burst current, the current is clamped to \<open>Burst\<close> and the
  torque is set to \<open>Burst * Kt / k = 4875/83776\<close>, about 0.0582, where the inverse of
  the forward mapping \<open>amps = T / Kt / k\<close> is \<open>Burst * Kt * k = 195/5236\<close>, about
  0.0372.
\<close>

theorem clamped_torque_divides_by_k:
  "weak_sim \<bind> (\<lambda>s0. wheel (fsolve_guess True) s0 0) =
     Some (Fin (spec_mu frc_tire (1 - 0.0001 / 0.032) * (5 / 4)), Fin (4875 / 83776), Fin 1,
           Fin 9.75, Fin (1 - 0.0001 / 0.032)) \<and>
   Battery_Burst weak_battery = 9.75 \<and>
   Battery_Burst weak_battery * Motor_Kt frc_motor * (1 / Motor_k frc_motor) = 4875 / 83776 \<and>
   Battery_Burst weak_battery * Motor_Kt frc_motor * Motor_k frc_motor = 195 / 5236"
proof -
  from weak_sim_Some obtain s0 where s0: "weak_sim = Some s0" by blast
  have "(0::nat) < 4" by simp
  from weak_wheel_guess [OF s0 this, of True]
  have "weak_sim \<bind> (\<lambda>s0. wheel (fsolve_guess True) s0 0) =
       Some (Fin (spec_mu frc_tire (1 - 0.0001 / 0.032) * (5 / 4)), Fin (4875 / 83776), Fin 1,
             Fin 9.75, Fin (1 - 0.0001 / 0.032))"
    by (simp add: s0)
  moreover have "Battery_Burst weak_battery = 9.75" by (rule weak_Burst)
  moreover have
    "Battery_Burst weak_battery * Motor_Kt frc_motor * (1 / Motor_k frc_motor) = 4875 / 83776"
    by (simp add: weak_battery_def Battery_init_def frc_motor_def)
  moreover have "Battery_Burst weak_battery * Motor_Kt frc_motor * Motor_k frc_motor = 195 / 5236"
    by (simp add: weak_battery_def Battery_init_def frc_motor_def)
  ultimately show ?thesis by blast
qed

section \<open>A vehicle with no load on the rear axle\<close>

text \<open>
  With the centre of gravity over the front axle the rear wheels carry the static load 0.
  Every sample of their peak search is \<open>0/0\<close>, the peak force is NaN, and so are the
  torque and the current; NaN is not greater than the burst current, so the current stays.
  The sum of the forces, the acceleration and the weight transfer are NaN, and every load
  after the first tick is NaN. The root finder plays no part in this.
\<close>

lemma nose_sim_Some: "\<exists>s0. nose_sim = Some s0"
  by (simp add: nose_sim_def Sim_init_def nose_vehicle_def Vehicle_init_def py_div_def)

lemma nose_rear_wheel:
  assumes "nose_sim = Some s0" and "n = 2 \<or> n = 3"
  shows "\<exists>w. wheel f s0 n = Some (NaN, NaN, w, NaN, Fin 0)"
proof -
  have init: "Sim_init nose_vehicle frc_motor frc_tire frc_battery 0.01 20 = Some s0"
    using assms(1) by (simp add: nose_sim_def)
  note d = Sim_init_SomeD [OF init]
  have Fz: "current_Fz s0 = [Fin (5 / 2), Fin (5 / 2), Fin 0, Fin 0]"
    using d(8,9) by (simp add: nose_vehicle_def Vehicle_init_def)
  have Fzn: "current_Fz s0 ! n = Fin 0" using assms(2) Fz by auto
  have ln: "n < length (current_Fz s0)" "n < length (current_w s0)"
    using assms(2) Fz d(11) by auto
  have r: "Tire_r (Sim_Tire s0) \<noteq> 0" "Motor_k (Sim_Motor s0) \<noteq> 0"
    by (simp_all add: d(3,4) frc_fields)
  have pk: "peak (Sim_Tire s0) (current_Fz s0 ! n) = Some (NaN, Fin 0)"
    unfolding Fzn by (rule peak_zero)
  from required_eq [OF ln r pk]
  have "\<exists>w. required s0 n = Some (NaN, NaN, w, NaN, Fin 0)" by simp
  then obtain w where w: "required s0 n = Some (NaN, NaN, w, NaN, Fin 0)" by blast
  have "\<not> fl_gt NaN (Fin (Battery_Burst (Sim_Battery s0)))" by simp
  from wheel_not_clamped [OF w this] show ?thesis by blast
qed

lemma nose_first_tick:
  assumes "nose_sim = Some s0"
  shows "\<exists>s1 a0 a1. tick f s0 = Some s1 \<and> current_amps s1 = [a0, a1, NaN, NaN] \<and>
           current_x_ddot s1 = NaN \<and> current_Fz s1 = [NaN, NaN, NaN, NaN]"
proof -
  have init: "Sim_init nose_vehicle frc_motor frc_tire frc_battery 0.01 20 = Some s0"
    using assms(1) by (simp add: nose_sim_def)
  note d = Sim_init_SomeD [OF init]
  have l4: "length (current_Fz s0) = 4" "length (inital_Fz s0) = 4" using d(8,9) by simp_all
  have l: "Vehicle_l (Sim_Vehicle s0) \<noteq> 0" using d(1,2) by simp
  have r: "Tire_r (Sim_Tire s0) \<noteq> 0" "Motor_k (Sim_Motor s0) \<noteq> 0"
    by (simp_all add: d(3,4) frc_fields)
  have "0 < length (current_Fz s0)" "0 < length (current_w s0)" using l4 d(11) by simp_all
  from wheel_total [OF this r, of f] obtain P0 T0 w0 a0 sl0 where
    w0: "wheel f s0 0 = Some (P0, T0, w0, a0, sl0)" by (metis prod_cases5)
  have "1 < length (current_Fz s0)" "1 < length (current_w s0)" using l4 d(11) by simp_all
  from wheel_total [OF this r, of f] obtain P1 T1 w1 a1 sl1 where
    w1: "wheel f s0 1 = Some (P1, T1, w1, a1, sl1)" by (metis prod_cases5)
  from nose_rear_wheel [OF assms, of 2 f] obtain w2 where
    w2: "wheel f s0 2 = Some (NaN, NaN, w2, NaN, Fin 0)" by auto
  from nose_rear_wheel [OF assms, of 3 f] obtain w3 where
    w3: "wheel f s0 3 = Some (NaN, NaN, w3, NaN, Fin 0)" by auto
  from tick_of_wheels [OF l4 l w0 w1 w2 w3] obtain s1 where
    s1: "tick f s0 = Some s1" "current_amps s1 = [a0, a1, NaN, NaN]"
    "current_x_ddot s1 =
       (Fin 0 + P0 + P1 + NaN + NaN - F_aero s0) / Fin (Vehicle_m (Sim_Vehicle s0))"
    by blast
  have x: "current_x_ddot s1 = NaN" unfolding s1(3) by simp
  have "current_Fz s1 = [NaN, NaN, NaN, NaN]"
    using tick_Fz_form [OF s1(1) d(8)] unfolding x by simp
  with s1(1,2) x show ?thesis by blast
qed

section \<open>The burst current\<close>

text \<open>
  Claim C5, as the specification states it: in every committed state the current of every
  wheel is less than or equal to the burst current. It is not: for the vehicle
  \<^verbatim>\<open>Vehicle(0, 0.252, 5, 0.032, 0.75, 0.0418)\<close> with the motor, tire and battery of the
  script the current of the last wheel (right rear) is NaN after the first tick, and NaN
  is not less than or equal to the burst current.
\<close>

theorem nan_amps_not_le_Burst:
  "map_option (last \<circ> current_amps) (nose_sim \<bind> tick (fsolve_guess True)) = Some NaN \<and>
   \<not> fl_le NaN (Fin (Battery_Burst frc_battery))"
proof -
  from nose_sim_Some obtain s0 where s0: "nose_sim = Some s0" by blast
  from nose_first_tick [OF s0, of "fsolve_guess True"] obtain s1 a0 a1 where
    "tick (fsolve_guess True) s0 = Some s1" "current_amps s1 = [a0, a1, NaN, NaN]" by blast
  then show ?thesis by (simp add: s0 fl_le_def)
qed

text \<open>
  Claim C5, amended: in every state that a tick has committed, and in the initial state
  when the burst current is not negative, the current of every wheel is either NaN or
  less than or equal to the burst current; it is never greater than the burst current.
  (The comparison of line 190 is false for NaN, which is then not clamped.)
\<close>

theorem amps_le_Burst:
  assumes "Sim_init V M T B dt runtime = Some s0"
    and "ticks f n s0 = Some s"
    and "0 < n \<or> 0 \<le> Battery_Burst B"
  shows "\<forall>i<4. current_amps s ! i = NaN \<or> fl_le (current_amps s ! i) (Fin (Battery_Burst B))"
proof (cases n)
  case 0
  with assms(2) have s: "s = s0" by simp
  from 0 assms(3) have "0 \<le> Battery_Burst B" by simp
  with Sim_init_amps [OF assms(1)] s show ?thesis by simp
next
  case (Suc k)
  with assms(2) ticks_Suc_last obtain s1 where
    s1: "ticks f k s0 = Some s1" "tick f s1 = Some s" by blast
  have "Sim_Battery s1 = B" using run_config(4) [OF assms(1) s1(1)] .
  with tick_amps [OF s1(2)] show ?thesis by simp
qed

theorem amps_le_Burst_witness:
  "\<exists>s0 s1 a0 a1 a2 a3. frc_sim = Some s0 \<and> ticks (fsolve_guess True) 1 s0 = Some s1 \<and>
     ((0::nat) < 1 \<or> 0 \<le> Battery_Burst frc_battery) \<and>
     Battery_Burst frc_battery = 97.5 \<and>
     current_amps s1 = [Fin a0, Fin a1, Fin a2, Fin a3] \<and>
     fl_le (current_amps s1 ! 0) (Fin 97.5) \<and> fl_le (current_amps s1 ! 1) (Fin 97.5) \<and>
     fl_le (current_amps s1 ! 2) (Fin 97.5) \<and> fl_le (current_amps s1 ! 3) (Fin 97.5)"
proof -
  from frc_sim_Some obtain s0 where s0: "frc_sim = Some s0" by blast
  from frc_first_tick [OF s0, of "fsolve_guess True"] obtain s1 a0 a1 a2 a3 where
    s1: "tick (fsolve_guess True) s0 = Some s1"
    "current_amps s1 = [Fin a0, Fin a1, Fin a2, Fin a3]" by blast
  then have t: "ticks (fsolve_guess True) 1 s0 = Some s1" by simp
  have init: "Sim_init frc_vehicle frc_motor frc_tire frc_battery 0.01 20 = Some s0"
    using s0 by (simp add: frc_sim_def)
  have B: "Battery_Burst frc_battery = 97.5" by (simp add: frc_battery_def Battery_init_def)
  have h: "(0::nat) < 1 \<or> 0 \<le> Battery_Burst frc_battery" by simp
  from amps_le_Burst [OF init t h]
  have "\<forall>i<4. current_amps s1 ! i = NaN \<or> fl_le (current_amps s1 ! i) (Fin 97.5)"
    using B by simp
  then have "current_amps s1 ! 0 = NaN \<or> fl_le (current_amps s1 ! 0) (Fin 97.5)"
    "current_amps s1 ! 1 = NaN \<or> fl_le (current_amps s1 ! 1) (Fin 97.5)"
    "current_amps s1 ! 2 = NaN \<or> fl_le (current_amps s1 ! 2) (Fin 97.5)"
    "current_amps s1 ! 3 = NaN \<or> fl_le (current_amps s1 ! 3) (Fin 97.5)" by simp_all
  then have "fl_le (current_amps s1 ! 0) (Fin 97.5) \<and> fl_le (current_amps s1 ! 1) (Fin 97.5) \<and>
     fl_le (current_amps s1 ! 2) (Fin 97.5) \<and> fl_le (current_amps s1 ! 3) (Fin 97.5)"
    unfolding s1(2) by simp
  with s0 t h B s1(2) show ?thesis by blast
qed

section \<open>The total load\<close>

text \<open>
  Claim C10, as stated: at every tick of every run the four normal forces add up to
  exactly the vehicle mass. They do not: for the vehicle
  \<^verbatim>\<open>Vehicle(0, 0.252, 5, 0.032, 0.75, 0.0418)\<close> every normal force is NaN after the first
  tick, and so is their sum, where the mass is 5.
\<close>

theorem nan_loads_sum_not_mass:
  "map_option current_Fz (nose_sim \<bind> tick (fsolve_guess True)) = Some [NaN, NaN, NaN, NaN] \<and>
   NaN + NaN + NaN + NaN \<noteq> Fin (Vehicle_m nose_vehicle)"
proof -
  from nose_sim_Some obtain s0 where s0: "nose_sim = Some s0" by blast
  from nose_first_tick [OF s0, of "fsolve_guess True"] obtain s1 where
    "tick (fsolve_guess True) s0 = Some s1" "current_Fz s1 = [NaN, NaN, NaN, NaN]" by blast
  then show ?thesis by (simp add: s0)
qed

text \<open>
  Claim C10, amended: in every state of every run (the initial state and the state after
  each tick) whose acceleration \<open>x_ddot\<close> is finite, the normal forces are the static loads
  \<open>m * b / l / 2\<close> per front wheel and \<open>m * a / l / 2\<close> per rear wheel, with no factor
  \<open>g\<close>, less half the weight transfer \<open>h / l * m * x_ddot / 9.81\<close> for each front wheel
  and plus half of it for each rear wheel, and \<open>Fz[0] + Fz[1] + Fz[2] + Fz[3]\<close> is the
  vehicle mass \<open>m\<close> (in the arithmetic of the model, which does not round). In a state
  whose acceleration is not finite no normal force is finite and their sum is NaN.
\<close>

theorem Fz_sum_is_mass:
  assumes "Sim_init (Vehicle_init a b m h cd A) M T B dt runtime = Some s0"
    and "ticks f n s0 = Some s"
  shows "(\<forall>X. current_x_ddot s = Fin X \<longrightarrow>
            current_Fz s = [Fin (m * b / (a + b) / 2 - h / (a + b) * m * X / 9.81 / 2),
                            Fin (m * b / (a + b) / 2 - h / (a + b) * m * X / 9.81 / 2),
                            Fin (m * a / (a + b) / 2 + h / (a + b) * m * X / 9.81 / 2),
                            Fin (m * a / (a + b) / 2 + h / (a + b) * m * X / 9.81 / 2)] \<and>
            current_Fz s ! 0 + current_Fz s ! 1 + current_Fz s ! 2 + current_Fz s ! 3 = Fin m) \<and>
         (\<not> is_Fin (current_x_ddot s) \<longrightarrow>
            current_Fz s ! 0 + current_Fz s ! 1 + current_Fz s ! 2 + current_Fz s ! 3 = NaN \<and>
            (\<forall>i<4. \<not> is_Fin (current_Fz s ! i)))"
  using run_Fz_finite [OF assms] run_Fz_nonfinite [OF assms] by blast

theorem Fz_sum_is_mass_witness:
  "(\<exists>s0 s1 X. frc_sim = Some s0 \<and> ticks (fsolve_guess True) 1 s0 = Some s1 \<and>
      current_x_ddot s1 = Fin X \<and>
      current_Fz s1 = [Fin (5 / 4 - 0.032 / 0.252 * 5 * X / 9.81 / 2),
                       Fin (5 / 4 - 0.032 / 0.252 * 5 * X / 9.81 / 2),
                       Fin (5 / 4 + 0.032 / 0.252 * 5 * X / 9.81 / 2),
                       Fin (5 / 4 + 0.032 / 0.252 * 5 * X / 9.81 / 2)] \<and>
      current_Fz s1 ! 0 + current_Fz s1 ! 1 + current_Fz s1 ! 2 + current_Fz s1 ! 3 = Fin 5) \<and>
   (\<exists>s0 s1. nose_sim = Some s0 \<and> ticks (fsolve_guess True) 1 s0 = Some s1 \<and>
      \<not> is_Fin (current_x_ddot s1) \<and>
      current_Fz s1 ! 0 + current_Fz s1 ! 1 + current_Fz s1 ! 2 + current_Fz s1 ! 3 = NaN \<and>
      \<not> is_Fin (current_Fz s1 ! 0))"
proof -
  from frc_sim_Some obtain s0 where s0: "frc_sim = Some s0" by blast
  from frc_first_tick [OF s0, of "fsolve_guess True"] obtain s1 X where
    s1: "tick (fsolve_guess True) s0 = Some s1" "current_x_ddot s1 = Fin X" by blast
  then have t: "ticks (fsolve_guess True) 1 s0 = Some s1" by simp
  have init: "Sim_init (Vehicle_init 0.126 0.126 5 0.032 0.75 0.0418) frc_motor frc_tire
                frc_battery 0.01 20 = Some s0"
    using s0 by (simp add: frc_sim_def frc_vehicle_def)
  from Fz_sum_is_mass [OF init t] s1(2)
  have "current_Fz s1 = [Fin (5 * 0.126 / (0.126 + 0.126) / 2 -
                               0.032 / (0.126 + 0.126) * 5 * X / 9.81 / 2),
                          Fin (5 * 0.126 / (0.126 + 0.126) / 2 -
                               0.032 / (0.126 + 0.126) * 5 * X / 9.81 / 2),
                          Fin (5 * 0.126 / (0.126 + 0.126) / 2 +
                               0.032 / (0.126 + 0.126) * 5 * X / 9.81 / 2),
                          Fin (5 * 0.126 / (0.126 + 0.126) / 2 +
                               0.032 / (0.126 + 0.126) * 5 * X / 9.81 / 2)] \<and>
         current_Fz s1 ! 0 + current_Fz s1 ! 1 + current_Fz s1 ! 2 + current_Fz s1 ! 3 = Fin 5"
    by blast
  then have A: "current_Fz s1 = [Fin (5 / 4 - 0.032 / 0.252 * 5 * X / 9.81 / 2),
                       Fin (5 / 4 - 0.032 / 0.252 * 5 * X / 9.81 / 2),
                       Fin (5 / 4 + 0.032 / 0.252 * 5 * X / 9.81 / 2),
                       Fin (5 / 4 + 0.032 / 0.252 * 5 * X / 9.81 / 2)] \<and>
      current_Fz s1 ! 0 + current_Fz s1 ! 1 + current_Fz s1 ! 2 + current_Fz s1 ! 3 = Fin 5"
    by simp
  from nose_sim_Some obtain n0 where n0: "nose_sim = Some n0" by blast
  from nose_first_tick [OF n0, of "fsolve_guess True"] obtain n1 where
    n1: "tick (fsolve_guess True) n0 = Some n1" "current_x_ddot n1 = NaN" by blast
  then have tn: "ticks (fsolve_guess True) 1 n0 = Some n1" by simp
  have ninit: "Sim_init (Vehicle_init 0 0.252 5 0.032 0.75 0.0418) frc_motor frc_tire
                frc_battery 0.01 20 = Some n0"
    using n0 by (simp add: nose_sim_def nose_vehicle_def)
  have nf: "\<not> is_Fin (current_x_ddot n1)" using n1(2) by simp
  from Fz_sum_is_mass [OF ninit tn] nf
  have B: "current_Fz n1 ! 0 + current_Fz n1 ! 1 + current_Fz n1 ! 2 + current_Fz n1 ! 3 = NaN \<and>
        \<not> is_Fin (current_Fz n1 ! 0)" by simp
  from s0 t s1(2) A n0 tn nf B show ?thesis by blast
qed

text \<open>
  Claim C2, on the code: the output frame labels the normal forces in newtons
  (\<^verbatim>\<open>'FZ Right Front (N)'\<close>, line 117), and the weight of the script's vehicle is
  \<open>5 * 9.81 = 49.05\<close> N. In the initial state of the script's configuration the four
  normal forces are \<open>1.25\<close> each and add up to 5, the mass; after the first tick, with
  any root finder, they are \<open>1.25 - W\<close> for the front wheels and \<open>1.25 + W\<close> for the rear
  wheels for a finite \<open>W\<close>, and add up to 5 again, not to \<open>49.05\<close>.
\<close>

theorem Fz_sum_not_weight:
  "\<exists>s0 s1 W. frc_sim = Some s0 \<and>
     current_Fz s0 = [Fin (5 / 4), Fin (5 / 4), Fin (5 / 4), Fin (5 / 4)] \<and>
     current_Fz s0 ! 0 + current_Fz s0 ! 1 + current_Fz s0 ! 2 + current_Fz s0 ! 3 = Fin 5 \<and>
     tick f s0 = Some s1 \<and>
     current_Fz s1 = [Fin (5 / 4 - W), Fin (5 / 4 - W), Fin (5 / 4 + W), Fin (5 / 4 + W)] \<and>
     current_Fz s1 ! 0 + current_Fz s1 ! 1 + current_Fz s1 ! 2 + current_Fz s1 ! 3 = Fin 5 \<and>
     Fin (Vehicle_m frc_vehicle * 9.81) = Fin 49.05 \<and> Fin 5 \<noteq> Fin 49.05"
proof -
  from frc_sim_Some obtain s0 where s0: "frc_sim = Some s0" by blast
  from frc_first_tick [OF s0, of f] obtain s1 X where
    s1: "tick f s0 = Some s1" "current_x_ddot s1 = Fin X" by blast
  then have t: "ticks f 1 s0 = Some s1" by simp
  have init: "Sim_init (Vehicle_init 0.126 0.126 5 0.032 0.75 0.0418) frc_motor frc_tire
                frc_battery 0.01 20 = Some s0"
    using s0 by (simp add: frc_sim_def frc_vehicle_def)
  have init': "Sim_init frc_vehicle frc_motor frc_tire frc_battery 0.01 20 = Some s0"
    using s0 by (simp add: frc_sim_def)
  note i = frc_init [OF init']
  define W where "W = 0.032 / 0.252 * 5 * X / 9.81 / 2"
  have Fz1: "current_Fz s1 = [Fin (5 / 4 - W), Fin (5 / 4 - W), Fin (5 / 4 + W), Fin (5 / 4 + W)]"
    using run_Fz_finite(1) [OF init t s1(2)] unfolding W_def by simp
  have sum1: "current_Fz s1 ! 0 + current_Fz s1 ! 1 + current_Fz s1 ! 2 + current_Fz s1 ! 3 = Fin 5"
    using run_Fz_finite(2) [OF init t s1(2)] .
  have sum0: "current_Fz s0 ! 0 + current_Fz s0 ! 1 + current_Fz s0 ! 2 + current_Fz s0 ! 3 = Fin 5"
    unfolding i(1) by simp
  have g: "Fin (Vehicle_m frc_vehicle * 9.81) = Fin 49.05" "Fin 5 \<noteq> Fin 49.05"
    by (simp_all add: frc_vehicle_def Vehicle_init_def)
  from s0 i(1) sum0 s1(1) Fz1 sum1 g show ?thesis by blast
qed

end
